theory Spec2Isabelle
  imports Complex_Main "HOL-Library.Char_ord" "HOL-Library.List_Lexorder"
begin

section \<open>Results, errors and the JavaScript helpers the services rely on\<close>

text \<open>
  Every service method wraps its body in \<^verbatim>\<open>try { ... } catch (error)\<close> and returns the
  envelope \<^verbatim>\<open>{success: true, data}\<close> or \<^verbatim>\<open>{success: false, error}\<close>. A rejected backend
  call is a value \<open>Inl e\<close>, where \<open>e\<close> is the \<^verbatim>\<open>message\<close> of the thrown error (the empty
  string when the error carries none, which is how \<^verbatim>\<open>error.message || '...'\<close> reads it).
\<close>

type_synonym exn = string

datatype 'a api_response = Success 'a | Failure string

definition api_error :: "exn \<Rightarrow> string \<Rightarrow> string" where
  "api_error e fallback = (if e = [] then fallback else e)"

text \<open>The shape of both the backend's document list and \<^verbatim>\<open>PaginatedResponse\<close>.\<close>

record 'd paginated =
  documents :: "'d list"
  total :: nat

text \<open>The query terms the services build with \<^verbatim>\<open>Query.*\<close>.\<close>

datatype query =
    OrderDesc string
  | Limit nat
  | Offset nat
  | Equal string string
  | GreaterThanEqual string int
  | LessThanEqual string int

text \<open>
  \<^verbatim>\<open>Promise.all([p1, p2])\<close>: both calls are issued; the result is the pair of values when
  both fulfil and the first rejection otherwise. When both reject, which rejection arrives
  first is decided by the backend's timing: the flag \<open>second_first\<close> stands for it.
\<close>

definition promise_all2 :: "bool \<Rightarrow> exn + 'a \<Rightarrow> exn + 'b \<Rightarrow> exn + ('a \<times> 'b)" where
  "promise_all2 second_first r1 r2 =
     (case r1 of
        Inr a \<Rightarrow> (case r2 of Inr b \<Rightarrow> Inr (a, b) | Inl e2 \<Rightarrow> Inl e2)
      | Inl e1 \<Rightarrow> (case r2 of Inr b \<Rightarrow> Inl e1 | Inl e2 \<Rightarrow> Inl (if second_first then e2 else e1)))"

text \<open>\<^verbatim>\<open>if (filters.status)\<close>: an optional string is truthy when present and not empty.\<close>

fun truthy_str :: "string option \<Rightarrow> bool" where
  "truthy_str None = False"
| "truthy_str (Some s) = (s \<noteq> [])"

text \<open>\<^verbatim>\<open>xs.slice(b, e)\<close> for non-negative integral bounds.\<close>

definition slice :: "nat \<Rightarrow> nat \<Rightarrow> 'a list \<Rightarrow> 'a list" where
  "slice b e xs = take (e - b) (drop b xs)"

text \<open>\<^verbatim>\<open>xs.findIndex(p)\<close>: the index of the first element satisfying \<open>p\<close>, or \<open>-1\<close>.\<close>

fun findIndex :: "('a \<Rightarrow> bool) \<Rightarrow> 'a list \<Rightarrow> int" where
  "findIndex p [] = - 1"
| "findIndex p (x # xs) =
     (if p x then 0 else (let r = findIndex p xs in if r < 0 then - 1 else r + 1))"

text \<open>
  \<^verbatim>\<open>all.filter((d, index, self) => index === self.findIndex(e => e.$id === d.$id))\<close>,
  for an identity accessor \<open>ident\<close>.
\<close>

definition unique_by :: "('a \<Rightarrow> string) \<Rightarrow> 'a list \<Rightarrow> 'a list" where
  "unique_by ident self =
     map snd (filter (\<lambda>(index, d). int index = findIndex (\<lambda>e. ident e = ident d) self)
                     (enumerate 0 self))"

text \<open>
  \<^verbatim>\<open>xs.sort(cmp)\<close>: a stable sort (ECMAScript 2019), here by insertion; \<open>x\<close> goes before
  the first \<open>y\<close> with \<open>cmp x y \<le> 0\<close>.
\<close>

fun insert_by :: "('a \<Rightarrow> 'a \<Rightarrow> int) \<Rightarrow> 'a \<Rightarrow> 'a list \<Rightarrow> 'a list" where
  "insert_by cmp x [] = [x]"
| "insert_by cmp x (y # ys) = (if cmp x y \<le> 0 then x # y # ys else y # insert_by cmp x ys)"

definition js_sort :: "('a \<Rightarrow> 'a \<Rightarrow> int) \<Rightarrow> 'a list \<Rightarrow> 'a list" where
  "js_sort cmp xs = foldr (insert_by cmp) xs []"

text \<open>
  \<^verbatim>\<open>(a, b) => new Date(b.created_at).getTime() - new Date(a.created_at).getTime()\<close>, for an
  accessor \<open>time\<close> giving the parsed timestamp in milliseconds.
\<close>

definition newest_first :: "('a \<Rightarrow> int) \<Rightarrow> 'a \<Rightarrow> 'a \<Rightarrow> int" where
  "newest_first time a b = time b - time a"

section \<open>Disputes\<close>

text \<open>
  The fields of a dispute document the service reads. \<open>dsp_created_at\<close> and
  \<open>dsp_resolved_at\<close> are the timestamps as \<^verbatim>\<open>new Date(...).getTime()\<close> reads them; a
  dispute without \<^verbatim>\<open>resolved_at\<close> has \<open>None\<close>. The status is the string the store holds.
\<close>

record dispute =
  dsp_id :: string
  dsp_complainant_id :: string
  dsp_respondent_id :: string
  dsp_dispute_type :: string
  dsp_status :: string
  dsp_priority :: string
  dsp_created_at :: int
  dsp_resolved_at :: "int option"

record dispute_filters =
  flt_status :: "string option"
  flt_priority :: "string option"
  flt_disputeType :: "string option"
  flt_userId :: "string option"

datatype dispute_role = Complainant | Respondent | AllRoles

text \<open>\<^verbatim>\<open>if (filters.x) queries.push(Query.equal(attr, filters.x))\<close>.\<close>

definition push_equal :: "string \<Rightarrow> string option \<Rightarrow> query list" where
  "push_equal attr v = (if truthy_str v then [Equal attr (the v)] else [])"

definition getAll_queries :: "dispute_filters \<Rightarrow> nat \<Rightarrow> nat \<Rightarrow> query list" where
  "getAll_queries filters limit offset =
     [OrderDesc ''created_at'', Limit limit, Offset offset]
     @ push_equal ''status'' (flt_status filters)
     @ push_equal ''priority'' (flt_priority filters)
     @ push_equal ''dispute_type'' (flt_disputeType filters)"

text \<open>
  \<^verbatim>\<open>DisputeService.getAll\<close>. \<open>listDocuments\<close> is the backend call on the disputes
  collection; the body of the \<^verbatim>\<open>try\<close> block computes \<open>getAll_response\<close>.
\<close>

definition getAll_response ::
  "(query list \<Rightarrow> exn + dispute paginated) \<Rightarrow> bool \<Rightarrow> dispute_filters \<Rightarrow> nat \<Rightarrow> nat
   \<Rightarrow> exn + dispute paginated" where
  "getAll_response listDocuments race filters limit offset =
     (let queries = getAll_queries filters limit offset in
      if truthy_str (flt_userId filters) then
        (case promise_all2 race
                (listDocuments (queries @ [Equal ''complainant_id'' (the (flt_userId filters))]))
                (listDocuments (queries @ [Equal ''respondent_id'' (the (flt_userId filters))])) of
           Inl e \<Rightarrow> Inl e
         | Inr (complainantDisputes, respondentDisputes) \<Rightarrow>
             (let allDisputes = documents complainantDisputes @ documents respondentDisputes;
                  uniqueDisputes = unique_by dsp_id allDisputes
              in Inr \<lparr>documents = slice offset (offset + limit)
                                     (js_sort (newest_first dsp_created_at) uniqueDisputes),
                      total = length uniqueDisputes\<rparr>))
      else listDocuments queries)"

definition DisputeService_getAll ::
  "(query list \<Rightarrow> exn + dispute paginated) \<Rightarrow> bool \<Rightarrow> dispute_filters \<Rightarrow> nat \<Rightarrow> nat
   \<Rightarrow> dispute paginated api_response" where
  "DisputeService_getAll listDocuments race filters limit offset =
     (case getAll_response listDocuments race filters limit offset of
        Inl e \<Rightarrow> Failure (api_error e ''Failed to fetch disputes'')
      | Inr response \<Rightarrow> Success \<lparr>documents = documents response, total = total response\<rparr>)"

text \<open>\<^verbatim>\<open>DisputeService.getUserDisputes\<close>.\<close>

definition getUserDisputes_response ::
  "(query list \<Rightarrow> exn + dispute paginated) \<Rightarrow> bool \<Rightarrow> string \<Rightarrow> dispute_role \<Rightarrow> nat \<Rightarrow> nat
   \<Rightarrow> exn + dispute paginated" where
  "getUserDisputes_response listDocuments race userId role limit offset =
     (let queries = [OrderDesc ''created_at'', Limit limit, Offset offset] in
      case role of
        Complainant \<Rightarrow> listDocuments (queries @ [Equal ''complainant_id'' userId])
      | Respondent \<Rightarrow> listDocuments (queries @ [Equal ''respondent_id'' userId])
      | AllRoles \<Rightarrow>
          (case promise_all2 race
                  (listDocuments (queries @ [Equal ''complainant_id'' userId]))
                  (listDocuments (queries @ [Equal ''respondent_id'' userId])) of
             Inl e \<Rightarrow> Inl e
           | Inr (complainantDisputes, respondentDisputes) \<Rightarrow>
               (let allDisputes =
                      slice offset (offset + limit)
                        (js_sort (newest_first dsp_created_at)
                           (documents complainantDisputes @ documents respondentDisputes))
                in Inr \<lparr>documents = allDisputes,
                        total = total complainantDisputes + total respondentDisputes\<rparr>)))"

definition DisputeService_getUserDisputes ::
  "(query list \<Rightarrow> exn + dispute paginated) \<Rightarrow> bool \<Rightarrow> string \<Rightarrow> dispute_role \<Rightarrow> nat \<Rightarrow> nat
   \<Rightarrow> dispute paginated api_response" where
  "DisputeService_getUserDisputes listDocuments race userId role limit offset =
     (case getUserDisputes_response listDocuments race userId role limit offset of
        Inl e \<Rightarrow> Failure (api_error e ''Failed to fetch user disputes'')
      | Inr response \<Rightarrow> Success \<lparr>documents = documents response, total = total response\<rparr>)"

section \<open>Payments\<close>

record payment =
  pay_id :: string
  pay_payer_id :: string
  pay_recipient_id :: string
  pay_amount :: rat
  pay_status :: string
  pay_created_at :: int

datatype payment_type = Sent | Received | AllPayments

text \<open>
  \<^verbatim>\<open>PaymentService.getUserPayments\<close>. The \<^verbatim>\<open>'all'\<close> branch returns from inside the
  \<^verbatim>\<open>else\<close>; the other two fall through to the single query below it.
\<close>

definition getUserPayments_response ::
  "(query list \<Rightarrow> exn + payment paginated) \<Rightarrow> bool \<Rightarrow> string \<Rightarrow> payment_type \<Rightarrow> nat \<Rightarrow> nat
   \<Rightarrow> exn + payment paginated" where
  "getUserPayments_response listDocuments race userId type limit offset =
     (let queries = [OrderDesc ''created_at'', Limit limit, Offset offset] in
      case type of
        Sent \<Rightarrow> listDocuments (queries @ [Equal ''payer_id'' userId])
      | Received \<Rightarrow> listDocuments (queries @ [Equal ''recipient_id'' userId])
      | AllPayments \<Rightarrow>
          (case promise_all2 race
                  (listDocuments [Equal ''payer_id'' userId, OrderDesc ''created_at'',
                                  Limit limit, Offset offset])
                  (listDocuments [Equal ''recipient_id'' userId, OrderDesc ''created_at'',
                                  Limit limit, Offset offset]) of
             Inl e \<Rightarrow> Inl e
           | Inr (sentResponse, receivedResponse) \<Rightarrow>
               (let allPayments =
                      slice offset (offset + limit)
                        (js_sort (newest_first pay_created_at)
                           (documents sentResponse @ documents receivedResponse))
                in Inr \<lparr>documents = allPayments,
                        total = total sentResponse + total receivedResponse\<rparr>)))"

definition PaymentService_getUserPayments ::
  "(query list \<Rightarrow> exn + payment paginated) \<Rightarrow> bool \<Rightarrow> string \<Rightarrow> payment_type \<Rightarrow> nat \<Rightarrow> nat
   \<Rightarrow> payment paginated api_response" where
  "PaymentService_getUserPayments listDocuments race userId type limit offset =
     (case getUserPayments_response listDocuments race userId type limit offset of
        Inl e \<Rightarrow> Failure (api_error e ''Failed to fetch user payments'')
      | Inr response \<Rightarrow> Success \<lparr>documents = documents response, total = total response\<rparr>)"

section \<open>The document store\<close>

text \<open>
  Modelled from the spec: the backend's \<^verbatim>\<open>databases.listDocuments\<close> (the client module
  \<^verbatim>\<open>$lib/appwrite/appwrite-client\<close> only instantiates the \<^verbatim>\<open>Databases\<close> class of the
  Appwrite SDK, whose code is not among the sources). Section 6 of the specification
  gives it as
  \<^verbatim>\<open>list(collection, predicates[], sort?, limit?, offset?) -> {documents[], total}\<close> with
  AND-composed predicates: the documents satisfying every predicate, newest first when
  asked, cut to the window \<open>[offset, offset + limit)\<close>; \<open>total\<close> counts every match. A
  query without a limit is answered in full. The store is parametric in how an attribute
  name is read off a document.
\<close>

fun query_matches :: "(string \<Rightarrow> 'd \<Rightarrow> string option) \<Rightarrow> ('d \<Rightarrow> int) \<Rightarrow> 'd \<Rightarrow> query \<Rightarrow> bool" where
  "query_matches attr time d (Equal a v) = (attr a d = Some v)"
| "query_matches attr time d (GreaterThanEqual a t) = (t \<le> time d)"
| "query_matches attr time d (LessThanEqual a t) = (time d \<le> t)"
| "query_matches attr time d _ = True"

fun query_offset :: "query list \<Rightarrow> nat" where
  "query_offset [] = 0"
| "query_offset (Offset n # qs) = n"
| "query_offset (q # qs) = query_offset qs"

fun query_limit :: "query list \<Rightarrow> nat option" where
  "query_limit [] = None"
| "query_limit (Limit n # qs) = Some n"
| "query_limit (q # qs) = query_limit qs"

definition store_list ::
  "(string \<Rightarrow> 'd \<Rightarrow> string option) \<Rightarrow> ('d \<Rightarrow> int) \<Rightarrow> 'd list \<Rightarrow> query list
   \<Rightarrow> exn + 'd paginated" where
  "store_list attr time collection queries =
     (let hits = filter (\<lambda>d. list_all (query_matches attr time d) queries) collection;
          ordered = (if OrderDesc ''created_at'' \<in> set queries
                     then js_sort (newest_first time) hits else hits);
          window = drop (query_offset queries) ordered
      in Inr \<lparr>documents = (case query_limit queries of None \<Rightarrow> window | Some n \<Rightarrow> take n window),
              total = length hits\<rparr>)"

definition dispute_attr :: "string \<Rightarrow> dispute \<Rightarrow> string option" where
  "dispute_attr a d =
     (if a = ''complainant_id'' then Some (dsp_complainant_id d)
      else if a = ''respondent_id'' then Some (dsp_respondent_id d)
      else if a = ''status'' then Some (dsp_status d)
      else if a = ''priority'' then Some (dsp_priority d)
      else if a = ''dispute_type'' then Some (dsp_dispute_type d)
      else None)"

definition payment_attr :: "string \<Rightarrow> payment \<Rightarrow> string option" where
  "payment_attr a p =
     (if a = ''payer_id'' then Some (pay_payer_id p)
      else if a = ''recipient_id'' then Some (pay_recipient_id p)
      else if a = ''status'' then Some (pay_status p)
      else None)"

definition disputes_of :: "dispute list \<Rightarrow> query list \<Rightarrow> exn + dispute paginated" where
  "disputes_of collection = store_list dispute_attr dsp_created_at collection"

definition payments_of :: "payment list \<Rightarrow> query list \<Rightarrow> exn + payment paginated" where
  "payments_of collection = store_list payment_attr pay_created_at collection"

section \<open>Reviews and rating statistics\<close>

text \<open>
  \<^verbatim>\<open>Math.round(x)\<close> is the integer nearest to \<open>x\<close>, a half rounding up (towards
  positive infinity).
\<close>

definition math_round :: "rat \<Rightarrow> int" where
  "math_round x = \<lfloor>x + 1 / 2\<rfloor>"

subsection \<open>JavaScript numbers\<close>

text \<open>
  A JavaScript number is an IEEE 754 binary64 value: a finite number, given here by its
  exact rational value, one of the two infinities, or \<^verbatim>\<open>NaN\<close>. The two zeros are not
  told apart (\<^verbatim>\<open>-0 === 0\<close>).
\<close>

datatype jsnum = Num rat | PInf | NInf | NaN

text \<open>The number of binary digits of a positive integer.\<close>

function bits :: "int \<Rightarrow> int" where
  "bits n = (if n \<le> 0 then 0 else 1 + bits (n div 2))"
  by pat_completeness auto
termination
  by (relation "measure nat") auto

declare bits.simps [simp del]

text \<open>For \<open>x \<noteq> 0\<close>, the exponent \<open>e\<close> with \<open>2 ^ e \<le> \<bar>x\<bar> < 2 ^ (e + 1)\<close>.\<close>

definition ilog2 :: "rat \<Rightarrow> int" where
  "ilog2 x =
     (if 1 \<le> \<bar>x\<bar> then bits \<lfloor>\<bar>x\<bar>\<rfloor> - 1
      else - bits (\<lceil>1 / \<bar>x\<bar>\<rceil> - 1))"

definition pow2 :: "int \<Rightarrow> rat" where
  "pow2 k = (if 0 \<le> k then 2 ^ nat k else 1 / 2 ^ nat (- k))"

text \<open>Rounding to the nearest integer, a half going to the even neighbour.\<close>

definition round_half_even :: "rat \<Rightarrow> int" where
  "round_half_even x =
     (let f = \<lfloor>x\<rfloor>; d = x - of_int f
      in if d < 1 / 2 then f else if 1 / 2 < d then f + 1 else if even f then f else f + 1)"

text \<open>
  The binary64 value of a real result: the nearest multiple of the unit in the last of
  53 significant binary digits (of \<open>2 ^ - 1074\<close> for a subnormal result), ties to the
  even one, and an infinity once that reaches \<open>2 ^ 1024\<close>.
\<close>

definition round64 :: "rat \<Rightarrow> jsnum" where
  "round64 x =
     (if x = 0 then Num 0
      else (let q = pow2 (max (ilog2 x) (- 1022) - 52);
                y = of_int (round_half_even (x / q)) * q
            in if pow2 1024 \<le> y then PInf
               else if y \<le> - pow2 1024 then NInf
               else Num y))"

text \<open>\<^verbatim>\<open>a + b\<close>, \<^verbatim>\<open>a * b\<close>, \<^verbatim>\<open>a / b\<close> and \<^verbatim>\<open>Math.round(a)\<close> on numbers.\<close>

fun js_add :: "jsnum \<Rightarrow> jsnum \<Rightarrow> jsnum" where
  "js_add (Num a) (Num b) = round64 (a + b)"
| "js_add NaN b = NaN"
| "js_add a NaN = NaN"
| "js_add PInf NInf = NaN"
| "js_add NInf PInf = NaN"
| "js_add PInf b = PInf"
| "js_add NInf b = NInf"
| "js_add (Num a) PInf = PInf"
| "js_add (Num a) NInf = NInf"

fun js_mul :: "jsnum \<Rightarrow> jsnum \<Rightarrow> jsnum" where
  "js_mul (Num a) (Num b) = round64 (a * b)"
| "js_mul NaN b = NaN"
| "js_mul a NaN = NaN"
| "js_mul PInf (Num b) = (if b = 0 then NaN else if 0 < b then PInf else NInf)"
| "js_mul NInf (Num b) = (if b = 0 then NaN else if 0 < b then NInf else PInf)"
| "js_mul (Num a) PInf = (if a = 0 then NaN else if 0 < a then PInf else NInf)"
| "js_mul (Num a) NInf = (if a = 0 then NaN else if 0 < a then NInf else PInf)"
| "js_mul PInf PInf = PInf"
| "js_mul NInf NInf = PInf"
| "js_mul PInf NInf = NInf"
| "js_mul NInf PInf = NInf"

fun js_div :: "jsnum \<Rightarrow> jsnum \<Rightarrow> jsnum" where
  "js_div (Num a) (Num b) =
     (if b = 0 then (if a = 0 then NaN else if 0 < a then PInf else NInf)
      else round64 (a / b))"
| "js_div NaN b = NaN"
| "js_div a NaN = NaN"
| "js_div (Num a) PInf = Num 0"
| "js_div (Num a) NInf = Num 0"
| "js_div PInf (Num b) = (if 0 \<le> b then PInf else NInf)"
| "js_div NInf (Num b) = (if 0 \<le> b then NInf else PInf)"
| "js_div PInf b = NaN"
| "js_div NInf b = NaN"

fun js_round :: "jsnum \<Rightarrow> jsnum" where
  "js_round (Num a) = Num (of_int (math_round a))"
| "js_round a = a"

text \<open>
  A numeric field of a document holds a decimal number; the code reads it as the nearest
  JavaScript number. \<^verbatim>\<open>xs.length\<close> and a counter are whole numbers.
\<close>

definition js_number :: "rat \<Rightarrow> jsnum" where
  "js_number x = round64 x"

definition js_count :: "nat \<Rightarrow> jsnum" where
  "js_count n = Num (of_nat n)"

record review =
  rev_id :: string
  rev_job_id :: string
  rev_reviewer_id :: string
  rev_reviewee_id :: string
  rev_rating :: rat
  rev_comment :: "string option"
  rev_review_type :: string
  rev_created_at :: int
  rev_updated_at :: "int option"

text \<open>\<^verbatim>\<open>dist[k] = (dist[k] || 0) + 1\<close>.\<close>

definition bump :: "('k \<rightharpoonup> nat) \<Rightarrow> 'k \<Rightarrow> ('k \<rightharpoonup> nat)" where
  "bump counts k = counts(k \<mapsto> (case counts k of None \<Rightarrow> 0 | Some c \<Rightarrow> c) + 1)"

record rating_stats =
  averageRating :: jsnum
  totalReviews :: nat
  ratingDistribution :: "rat \<rightharpoonup> nat"
  recentReviews :: "review list"

text \<open>
  \<^verbatim>\<open>ReviewService.getUserRatingStats\<close>, from the fetched \<^verbatim>\<open>reviews\<close> on: the early
  return for no reviews, the two \<^verbatim>\<open>reduce\<close> calls and the returned object.
\<close>

definition user_rating_stats :: "review list \<Rightarrow> rating_stats" where
  "user_rating_stats reviews =
     (if length reviews = 0 then
        \<lparr>averageRating = Num 0, totalReviews = 0, ratingDistribution = Map.empty,
         recentReviews = []\<rparr>
      else
        (let totalRating = foldl (\<lambda>sum review. js_add sum (js_number (rev_rating review))) (Num 0) reviews;
             average = js_div totalRating (js_count (length reviews));
             distribution = foldl (\<lambda>dist review. bump dist (rev_rating review)) Map.empty reviews
         in \<lparr>averageRating = js_div (js_round (js_mul average (Num 10))) (Num 10),
             totalReviews = length reviews,
             ratingDistribution = distribution,
             recentReviews = slice 0 5 reviews\<rparr>))"

record platform_stats =
  plat_totalReviews :: nat
  plat_averageRating :: jsnum
  plat_ratingDistribution :: "rat \<rightharpoonup> nat"
  plat_reviewsByType :: "string \<rightharpoonup> nat"

text \<open>\<^verbatim>\<open>ReviewService.getPlatformStats\<close>, from the fetched \<^verbatim>\<open>reviews\<close> on.\<close>

definition platform_review_stats :: "review list \<Rightarrow> platform_stats" where
  "platform_review_stats reviews =
     (if length reviews = 0 then
        \<lparr>plat_totalReviews = 0, plat_averageRating = Num 0, plat_ratingDistribution = Map.empty,
         plat_reviewsByType = Map.empty\<rparr>
      else
        (let totalRating = foldl (\<lambda>sum review. js_add sum (js_number (rev_rating review))) (Num 0) reviews;
             average = js_div totalRating (js_count (length reviews));
             distribution = foldl (\<lambda>dist review. bump dist (rev_rating review)) Map.empty reviews;
             reviewsByType = foldl (\<lambda>types review. bump types (rev_review_type review)) Map.empty reviews
         in \<lparr>plat_totalReviews = length reviews,
             plat_averageRating = js_div (js_round (js_mul average (Num 10))) (Num 10),
             plat_ratingDistribution = distribution,
             plat_reviewsByType = reviewsByType\<rparr>))"

text \<open>The optional \<^verbatim>\<open>dateRange\<close> of the statistics queries.\<close>

definition stats_queries :: "(int \<times> int) option \<Rightarrow> query list" where
  "stats_queries dateRange =
     [OrderDesc ''created_at'']
     @ (case dateRange of
          None \<Rightarrow> []
        | Some (start, stop) \<Rightarrow>
            [GreaterThanEqual ''created_at'' start, LessThanEqual ''created_at'' stop])"

definition ReviewService_getPlatformStats ::
  "(query list \<Rightarrow> exn + review paginated) \<Rightarrow> (int \<times> int) option \<Rightarrow> platform_stats api_response" where
  "ReviewService_getPlatformStats listDocuments dateRange =
     (case listDocuments (stats_queries dateRange) of
        Inl e \<Rightarrow> Failure (api_error e ''Failed to fetch platform review statistics'')
      | Inr response \<Rightarrow> Success (platform_review_stats (documents response)))"

section \<open>Payment statistics\<close>

record payment_stats =
  totalTransactions :: nat
  totalAmount :: jsnum
  pendingAmount :: jsnum
  completedAmount :: jsnum
  refundedAmount :: jsnum
  averageTransactionValue :: jsnum

text \<open>The reducer of \<^verbatim>\<open>PaymentService.getStats\<close> and its initial accumulator.\<close>

definition payment_reducer :: "payment_stats \<Rightarrow> payment \<Rightarrow> payment_stats" where
  "payment_reducer acc p =
     (let acc1 = acc\<lparr>totalTransactions := totalTransactions acc + 1,
                     totalAmount := js_add (totalAmount acc) (js_number (pay_amount p))\<rparr>
      in if pay_status p = ''pending'' then
           acc1\<lparr>pendingAmount := js_add (pendingAmount acc1) (js_number (pay_amount p))\<rparr>
         else if pay_status p = ''completed'' then
           acc1\<lparr>completedAmount := js_add (completedAmount acc1) (js_number (pay_amount p))\<rparr>
         else if pay_status p = ''refunded'' then
           acc1\<lparr>refundedAmount := js_add (refundedAmount acc1) (js_number (pay_amount p))\<rparr>
         else acc1)"

definition payment_stats_init :: payment_stats where
  "payment_stats_init =
     \<lparr>totalTransactions = 0, totalAmount = Num 0, pendingAmount = Num 0,
      completedAmount = Num 0, refundedAmount = Num 0, averageTransactionValue = Num 0\<rparr>"

definition payment_stats_of :: "payment list \<Rightarrow> payment_stats" where
  "payment_stats_of payments =
     (let stats = foldl payment_reducer payment_stats_init payments
      in stats\<lparr>averageTransactionValue :=
                  (if totalTransactions stats > 0
                   then js_div (totalAmount stats) (js_count (totalTransactions stats))
                   else Num 0)\<rparr>)"

definition PaymentService_getStats ::
  "(query list \<Rightarrow> exn + payment paginated) \<Rightarrow> (int \<times> int) option \<Rightarrow> payment_stats api_response" where
  "PaymentService_getStats listDocuments dateRange =
     (case listDocuments (stats_queries dateRange) of
        Inl e \<Rightarrow> Failure (api_error e ''Failed to fetch payment statistics'')
      | Inr response \<Rightarrow> Success (payment_stats_of (documents response)))"

section \<open>Dispute statistics\<close>

text \<open>
  The resolution times of this section are computed over the exact rationals; on the
  disputes evaluated below every intermediate value is a binary64 number, where the exact
  operations and those on JavaScript numbers give the same result.
\<close>

record dispute_acc =
  acc_totalDisputes :: nat
  acc_openDisputes :: nat
  acc_inReviewDisputes :: nat
  acc_resolvedDisputes :: nat
  acc_closedDisputes :: nat
  acc_totalResolutionTime :: rat
  acc_resolvedCount :: nat
  acc_disputesByType :: "string \<rightharpoonup> nat"
  acc_disputesByPriority :: "string \<rightharpoonup> nat"

record dispute_stats =
  totalDisputes :: nat
  openDisputes :: nat
  inReviewDisputes :: nat
  resolvedDisputes :: nat
  closedDisputes :: nat
  averageResolutionTime :: rat
  disputesByType :: "string \<rightharpoonup> nat"
  disputesByPriority :: "string \<rightharpoonup> nat"

text \<open>
  \<^verbatim>\<open>(resolvedTime - createdTime) / (1000 * 60 * 60)\<close>, for a dispute whose
  \<^verbatim>\<open>resolved_at\<close> parses to \<open>resolvedTime\<close>.
\<close>

definition resolutionHours :: "dispute \<Rightarrow> int \<Rightarrow> rat" where
  "resolutionHours d resolvedTime = of_int (resolvedTime - dsp_created_at d) / (1000 * 60 * 60)"

text \<open>The reducer of \<^verbatim>\<open>DisputeService.getStats\<close>, statement by statement.\<close>

definition count_status :: "dispute_acc \<Rightarrow> dispute \<Rightarrow> dispute_acc" where
  "count_status acc d =
     (if dsp_status d = ''open'' then acc\<lparr>acc_openDisputes := acc_openDisputes acc + 1\<rparr>
      else if dsp_status d = ''under_review'' then
        acc\<lparr>acc_inReviewDisputes := acc_inReviewDisputes acc + 1\<rparr>
      else if dsp_status d = ''resolved_in_favor_of_seeker''
              \<or> dsp_status d = ''resolved_in_favor_of_provider'' then
        acc\<lparr>acc_resolvedDisputes := acc_resolvedDisputes acc + 1\<rparr>
      else if dsp_status d = ''cancelled'' then
        acc\<lparr>acc_closedDisputes := acc_closedDisputes acc + 1\<rparr>
      else acc)"

definition count_resolution :: "dispute_acc \<Rightarrow> dispute \<Rightarrow> dispute_acc" where
  "count_resolution acc d =
     (if dsp_status d = ''resolved'' then
        (case dsp_resolved_at d of
           Some resolvedTime \<Rightarrow>
             acc\<lparr>acc_totalResolutionTime :=
                   acc_totalResolutionTime acc + resolutionHours d resolvedTime,
                 acc_resolvedCount := acc_resolvedCount acc + 1\<rparr>
         | None \<Rightarrow> acc)
      else acc)"

definition dispute_reducer :: "dispute_acc \<Rightarrow> dispute \<Rightarrow> dispute_acc" where
  "dispute_reducer acc d =
     (let acc1 = acc\<lparr>acc_totalDisputes := acc_totalDisputes acc + 1\<rparr>;
          acc2 = count_status acc1 d;
          acc3 = acc2\<lparr>acc_disputesByType := bump (acc_disputesByType acc2) (dsp_dispute_type d)\<rparr>;
          acc4 = acc3\<lparr>acc_disputesByPriority := bump (acc_disputesByPriority acc3) (dsp_priority d)\<rparr>
      in count_resolution acc4 d)"

definition dispute_acc_init :: dispute_acc where
  "dispute_acc_init =
     \<lparr>acc_totalDisputes = 0, acc_openDisputes = 0, acc_inReviewDisputes = 0,
      acc_resolvedDisputes = 0, acc_closedDisputes = 0, acc_totalResolutionTime = 0,
      acc_resolvedCount = 0, acc_disputesByType = Map.empty, acc_disputesByPriority = Map.empty\<rparr>"

definition dispute_stats_of :: "dispute list \<Rightarrow> dispute_stats" where
  "dispute_stats_of disputes =
     (let stats = foldl dispute_reducer dispute_acc_init disputes;
          average = (if acc_resolvedCount stats > 0
                     then acc_totalResolutionTime stats / of_nat (acc_resolvedCount stats)
                     else 0)
      in \<lparr>totalDisputes = acc_totalDisputes stats,
          openDisputes = acc_openDisputes stats,
          inReviewDisputes = acc_inReviewDisputes stats,
          resolvedDisputes = acc_resolvedDisputes stats,
          closedDisputes = acc_closedDisputes stats,
          averageResolutionTime = of_int (math_round (average * 100)) / 100,
          disputesByType = acc_disputesByType stats,
          disputesByPriority = acc_disputesByPriority stats\<rparr>)"

definition DisputeService_getStats ::
  "(query list \<Rightarrow> exn + dispute paginated) \<Rightarrow> (int \<times> int) option \<Rightarrow> dispute_stats api_response" where
  "DisputeService_getStats listDocuments dateRange =
     (case listDocuments (stats_queries dateRange) of
        Inl e \<Rightarrow> Failure (api_error e ''Failed to fetch dispute statistics'')
      | Inr response \<Rightarrow> Success (dispute_stats_of (documents response)))"

record workload_acc =
  acc_totalAssigned :: nat
  acc_inReview :: nat
  acc_resolved :: nat
  acc_workloadResolutionTime :: rat

record admin_workload =
  totalAssigned :: nat
  inReview :: nat
  resolved :: nat
  workloadAverageResolutionTime :: rat

text \<open>The reducer of \<^verbatim>\<open>DisputeService.getAdminWorkload\<close>.\<close>

definition workload_reducer :: "workload_acc \<Rightarrow> dispute \<Rightarrow> workload_acc" where
  "workload_reducer acc d =
     (let acc1 = acc\<lparr>acc_totalAssigned := acc_totalAssigned acc + 1\<rparr>
      in if dsp_status d = ''under_review'' then acc1\<lparr>acc_inReview := acc_inReview acc1 + 1\<rparr>
         else if dsp_status d = ''resolved_in_favor_of_seeker''
                 \<or> dsp_status d = ''resolved_in_favor_of_provider'' then
           (case dsp_resolved_at d of
              Some resolvedTime \<Rightarrow>
                acc1\<lparr>acc_resolved := acc_resolved acc1 + 1,
                     acc_workloadResolutionTime :=
                       acc_workloadResolutionTime acc1 + resolutionHours d resolvedTime\<rparr>
            | None \<Rightarrow> acc1)
         else acc1)"

definition admin_workload_of :: "dispute list \<Rightarrow> admin_workload" where
  "admin_workload_of disputes =
     (let stats = foldl workload_reducer
                    \<lparr>acc_totalAssigned = 0, acc_inReview = 0, acc_resolved = 0,
                     acc_workloadResolutionTime = 0\<rparr> disputes;
          average = (if acc_resolved stats > 0
                     then acc_workloadResolutionTime stats / of_nat (acc_resolved stats)
                     else 0)
      in \<lparr>totalAssigned = acc_totalAssigned stats,
          inReview = acc_inReview stats,
          resolved = acc_resolved stats,
          workloadAverageResolutionTime = of_int (math_round (average * 100)) / 100\<rparr>)"

definition DisputeService_getAdminWorkload ::
  "(query list \<Rightarrow> exn + dispute paginated) \<Rightarrow> string \<Rightarrow> admin_workload api_response" where
  "DisputeService_getAdminWorkload listDocuments adminId =
     (case listDocuments [Equal ''assigned_admin_id'' adminId, OrderDesc ''created_at''] of
        Inl e \<Rightarrow> Failure (api_error e ''Failed to fetch admin workload'')
      | Inr response \<Rightarrow> Success (admin_workload_of (documents response)))"

section \<open>Review mutations and the profile rating\<close>

text \<open>
  The part of the backend the review service writes to, as explicit state: the reviews
  collection, the profile documents (the two derived fields and the time of the last
  write), the lines written with \<^verbatim>\<open>console.error\<close>, and the backend calls issued so far,
  in order. \<open>faults\<close> says which calls the backend rejects, and with what error: it is
  how a failing write is injected.
\<close>

datatype backend_call =
    CreateDocument string
  | GetDocument string
  | ListDocuments string
  | UpdateDocument string
  | DeleteDocument string

record profile =
  average_rating :: jsnum
  total_reviews :: nat
  profile_updated_at :: "int option"

record world =
  reviews :: "review list"
  profiles :: "string \<rightharpoonup> profile"
  console :: "(string \<times> exn) list"
  calls :: "backend_call list"
  faults :: "backend_call \<Rightarrow> exn option"

definition REVIEWS :: string where "REVIEWS = ''reviews''"
definition PROFILES :: string where "PROFILES = ''profiles''"

definition not_found :: exn where
  "not_found = ''Document with the requested ID could not be found.''"

definition already_exists :: exn where
  "already_exists = ''Document with the requested ID already exists.''"

definition called :: "backend_call \<Rightarrow> world \<Rightarrow> world" where
  "called c w = w\<lparr>calls := calls w @ [c]\<rparr>"

definition review_attr :: "string \<Rightarrow> review \<Rightarrow> string option" where
  "review_attr a r =
     (if a = ''reviewee_id'' then Some (rev_reviewee_id r)
      else if a = ''reviewer_id'' then Some (rev_reviewer_id r)
      else if a = ''job_id'' then Some (rev_job_id r)
      else None)"

text \<open>
  Modelled from the spec: the backend's document operations on the reviews and profiles
  collections (\<^verbatim>\<open>$lib/appwrite/appwrite-client\<close> only instantiates the SDK's
  \<^verbatim>\<open>Databases\<close> class, whose code is not among the sources); section 6 of the
  specification lists them as \<^verbatim>\<open>create\<close>, \<open>get\<close>, \<open>list\<close>, \<open>update\<close> and
  \<open>delete\<close>. Each records the call, fails when a fault is injected for it or when the
  document it names does not exist (for \<open>create\<close>: already exists), and otherwise
  reads or writes the collection.
\<close>

definition db_createReview :: "world \<Rightarrow> review \<Rightarrow> (exn + review) \<times> world" where
  "db_createReview w r =
     (let w1 = called (CreateDocument REVIEWS) w in
      case faults w (CreateDocument REVIEWS) of
        Some e \<Rightarrow> (Inl e, w1)
      | None \<Rightarrow>
          (if rev_id r \<in> set (map rev_id (reviews w)) then (Inl already_exists, w1)
           else (Inr r, w1\<lparr>reviews := reviews w @ [r]\<rparr>)))"

definition db_getReview :: "world \<Rightarrow> string \<Rightarrow> (exn + review) \<times> world" where
  "db_getReview w reviewId =
     (let w1 = called (GetDocument REVIEWS) w in
      case faults w (GetDocument REVIEWS) of
        Some e \<Rightarrow> (Inl e, w1)
      | None \<Rightarrow>
          (case find (\<lambda>r. rev_id r = reviewId) (reviews w) of
             None \<Rightarrow> (Inl not_found, w1)
           | Some r \<Rightarrow> (Inr r, w1)))"

definition db_listReviews :: "world \<Rightarrow> query list \<Rightarrow> (exn + review paginated) \<times> world" where
  "db_listReviews w queries =
     (let w1 = called (ListDocuments REVIEWS) w in
      case faults w (ListDocuments REVIEWS) of
        Some e \<Rightarrow> (Inl e, w1)
      | None \<Rightarrow> (store_list review_attr rev_created_at (reviews w) queries, w1))"

record update_review_request =
  upd_rating :: "rat option"
  upd_comment :: "string option"

text \<open>\<^verbatim>\<open>{...updateData, updated_at: now}\<close> written over the stored review.\<close>

definition apply_update :: "update_review_request \<Rightarrow> int \<Rightarrow> review \<Rightarrow> review" where
  "apply_update updateData now r =
     r\<lparr>rev_rating := (case upd_rating updateData of None \<Rightarrow> rev_rating r | Some x \<Rightarrow> x),
       rev_comment := (case upd_comment updateData of None \<Rightarrow> rev_comment r | Some c \<Rightarrow> Some c),
       rev_updated_at := Some now\<rparr>"

definition db_updateReview ::
  "world \<Rightarrow> string \<Rightarrow> update_review_request \<Rightarrow> int \<Rightarrow> (exn + review) \<times> world" where
  "db_updateReview w reviewId updateData now =
     (let w1 = called (UpdateDocument REVIEWS) w in
      case faults w (UpdateDocument REVIEWS) of
        Some e \<Rightarrow> (Inl e, w1)
      | None \<Rightarrow>
          (case find (\<lambda>r. rev_id r = reviewId) (reviews w) of
             None \<Rightarrow> (Inl not_found, w1)
           | Some r \<Rightarrow>
               (Inr (apply_update updateData now r),
                w1\<lparr>reviews := map (\<lambda>x. if rev_id x = reviewId then apply_update updateData now x
                                         else x) (reviews w)\<rparr>)))"

definition db_deleteReview :: "world \<Rightarrow> string \<Rightarrow> (exn + unit) \<times> world" where
  "db_deleteReview w reviewId =
     (let w1 = called (DeleteDocument REVIEWS) w in
      case faults w (DeleteDocument REVIEWS) of
        Some e \<Rightarrow> (Inl e, w1)
      | None \<Rightarrow>
          (case find (\<lambda>r. rev_id r = reviewId) (reviews w) of
             None \<Rightarrow> (Inl not_found, w1)
           | Some r \<Rightarrow> (Inr (), w1\<lparr>reviews := filter (\<lambda>x. rev_id x \<noteq> reviewId) (reviews w)\<rparr>)))"

text \<open>The error with which the backend rejects a write to the profile of \<open>userId\<close>, if it does.\<close>

definition profile_write_error :: "world \<Rightarrow> string \<Rightarrow> exn option" where
  "profile_write_error w userId =
     (case faults w (UpdateDocument PROFILES) of
        Some e \<Rightarrow> Some e
      | None \<Rightarrow> (if profiles w userId = None then Some not_found else None))"

definition db_updateProfile ::
  "world \<Rightarrow> string \<Rightarrow> jsnum \<Rightarrow> nat \<Rightarrow> int \<Rightarrow> (exn + profile) \<times> world" where
  "db_updateProfile w userId rating n now =
     (let w1 = called (UpdateDocument PROFILES) w;
          updated = \<lparr>average_rating = rating, total_reviews = n, profile_updated_at = Some now\<rparr>
      in case profile_write_error w userId of
           Some e \<Rightarrow> (Inl e, w1)
         | None \<Rightarrow> (Inr updated, w1\<lparr>profiles := (profiles w)(userId \<mapsto> updated)\<rparr>))"

text \<open>\<^verbatim>\<open>ReviewService.getById\<close> and \<^verbatim>\<open>ReviewService.getUserRatingStats\<close>.\<close>

definition ReviewService_getById :: "world \<Rightarrow> string \<Rightarrow> review api_response \<times> world" where
  "ReviewService_getById w reviewId =
     (case db_getReview w reviewId of
        (Inl e, w1) \<Rightarrow> (Failure (api_error e ''Failed to fetch review''), w1)
      | (Inr review, w1) \<Rightarrow> (Success review, w1))"

definition ReviewService_getUserRatingStats ::
  "world \<Rightarrow> string \<Rightarrow> rating_stats api_response \<times> world" where
  "ReviewService_getUserRatingStats w userId =
     (case db_listReviews w [Equal ''reviewee_id'' userId, OrderDesc ''created_at''] of
        (Inl e, w1) \<Rightarrow> (Failure (api_error e ''Failed to fetch user rating statistics''), w1)
      | (Inr response, w1) \<Rightarrow> (Success (user_rating_stats (documents response)), w1))"

text \<open>
  \<^verbatim>\<open>ReviewService.updateUserRating\<close>: the profile is written only when the statistics
  were fetched; a rejected write is caught and logged, and nothing is thrown.
\<close>

definition updateUserRating :: "world \<Rightarrow> string \<Rightarrow> int \<Rightarrow> world" where
  "updateUserRating w userId now =
     (case ReviewService_getUserRatingStats w userId of
        (Success stats, w1) \<Rightarrow>
          (case db_updateProfile w1 userId (averageRating stats) (totalReviews stats) now of
             (Inl e, w2) \<Rightarrow> w2\<lparr>console := console w2 @ [(''Failed to update user rating:'', e)]\<rparr>
           | (Inr p, w2) \<Rightarrow> w2)
      | (Failure e, w1) \<Rightarrow> w1)"

record create_review_request =
  crr_jobId :: string
  crr_reviewerId :: string
  crr_revieweeId :: string
  crr_rating :: rat
  crr_comment :: "string option"
  crr_reviewType :: string

text \<open>The document \<^verbatim>\<open>ReviewService.create\<close> submits, under the id \<^verbatim>\<open>ID.unique()\<close> gave.\<close>

definition new_review :: "create_review_request \<Rightarrow> string \<Rightarrow> int \<Rightarrow> review" where
  "new_review reviewData newId now =
     \<lparr>rev_id = newId,
      rev_job_id = crr_jobId reviewData,
      rev_reviewer_id = crr_reviewerId reviewData,
      rev_reviewee_id = crr_revieweeId reviewData,
      rev_rating = crr_rating reviewData,
      rev_comment = crr_comment reviewData,
      rev_review_type = crr_reviewType reviewData,
      rev_created_at = now,
      rev_updated_at = None\<rparr>"

definition ReviewService_create ::
  "world \<Rightarrow> create_review_request \<Rightarrow> string \<Rightarrow> int \<Rightarrow> review api_response \<times> world" where
  "ReviewService_create w reviewData newId now =
     (case db_createReview w (new_review reviewData newId now) of
        (Inl e, w1) \<Rightarrow> (Failure (api_error e ''Failed to create review''), w1)
      | (Inr review, w1) \<Rightarrow>
          (Success review, updateUserRating w1 (crr_revieweeId reviewData) now))"

text \<open>\<^verbatim>\<open>updateData.rating && updateData.rating !== current.rating\<close>.\<close>

definition rating_changed :: "update_review_request \<Rightarrow> review \<Rightarrow> bool" where
  "rating_changed updateData current =
     (case upd_rating updateData of
        None \<Rightarrow> False
      | Some x \<Rightarrow> x \<noteq> 0 \<and> x \<noteq> rev_rating current)"

definition ReviewService_update ::
  "world \<Rightarrow> string \<Rightarrow> update_review_request \<Rightarrow> int \<Rightarrow> review api_response \<times> world" where
  "ReviewService_update w reviewId updateData now =
     (case ReviewService_getById w reviewId of
        (Failure e, w1) \<Rightarrow> (Failure e, w1)
      | (Success currentReview, w1) \<Rightarrow>
          (case db_updateReview w1 reviewId updateData now of
             (Inl e, w2) \<Rightarrow> (Failure (api_error e ''Failed to update review''), w2)
           | (Inr review, w2) \<Rightarrow>
               (Success review,
                if rating_changed updateData currentReview
                then updateUserRating w2 (rev_reviewee_id currentReview) now
                else w2)))"

definition ReviewService_delete :: "world \<Rightarrow> string \<Rightarrow> int \<Rightarrow> unit api_response \<times> world" where
  "ReviewService_delete w reviewId now =
     (case ReviewService_getById w reviewId of
        (Failure e, w1) \<Rightarrow> (Failure e, w1)
      | (Success reviewResult, w1) \<Rightarrow>
          (case db_deleteReview w1 reviewId of
             (Inl e, w2) \<Rightarrow> (Failure (api_error e ''Failed to delete review''), w2)
           | (Inr u, w2) \<Rightarrow>
               (Success (), updateUserRating w2 (rev_reviewee_id reviewResult) now)))"

text \<open>The backend calls an operation issued, from the worlds before and after it.\<close>

definition calls_during :: "world \<Rightarrow> world \<Rightarrow> backend_call list" where
  "calls_during w w' = drop (length (calls w)) (calls w')"

section \<open>Creating documents\<close>

text \<open>
  The \<^verbatim>\<open>create\<close> methods build an object literal from the request and hand it to
  \<^verbatim>\<open>databases.createDocument\<close>. Requests and documents are JavaScript objects: finite
  maps from property names to values; reading a property that is absent gives
  \<^verbatim>\<open>undefined\<close>.
\<close>

datatype jsval =
    JUndefined
  | JNull
  | JBool bool
  | JNum rat
  | JStr string
  | JArr "jsval list"

type_synonym obj = "string \<rightharpoonup> jsval"

definition js_get :: "obj \<Rightarrow> string \<Rightarrow> jsval" where
  "js_get x k = (case x k of None \<Rightarrow> JUndefined | Some v \<Rightarrow> v)"

fun js_truthy :: "jsval \<Rightarrow> bool" where
  "js_truthy JUndefined = False"
| "js_truthy JNull = False"
| "js_truthy (JBool b) = b"
| "js_truthy (JNum n) = (n \<noteq> 0)"
| "js_truthy (JStr s) = (s \<noteq> [])"
| "js_truthy (JArr xs) = True"

text \<open>\<^verbatim>\<open>a || b\<close>.\<close>

definition js_or :: "jsval \<Rightarrow> jsval \<Rightarrow> jsval" where
  "js_or a b = (if js_truthy a then a else b)"

text \<open>
  Modelled from the spec: the backend's \<^verbatim>\<open>databases.createDocument\<close> (section 6:
  \<^verbatim>\<open>create(collection, id|auto, fields) -> document\<close>), whose code is not among the
  sources, and the collection names: the services import \<^verbatim>\<open>COLLECTIONS\<close> from
  \<^verbatim>\<open>$lib/utils/constants\<close>, which does not export it, so the names are those of
  \<^verbatim>\<open>COLLECTION_IDS\<close> in \<^verbatim>\<open>$lib/utils/types/database.types\<close>. The store keeps documents by collection and id; a create is
  rejected when a fault is injected for the collection or the id is taken, and otherwise
  stores the fields under the id and returns the stored document.
\<close>

record database =
  docs :: "string \<times> string \<rightharpoonup> obj"
  rejects :: "string \<Rightarrow> exn option"

definition DISPUTES :: string where "DISPUTES = ''disputes''"
definition PAYMENTS :: string where "PAYMENTS = ''payments''"
definition APPLICATIONS :: string where "APPLICATIONS = ''applications''"
definition JOBS :: string where "JOBS = ''jobs''"

definition createDocument ::
  "database \<Rightarrow> string \<Rightarrow> string \<Rightarrow> obj \<Rightarrow> (exn + obj) \<times> database" where
  "createDocument db collection newId payload =
     (case rejects db collection of
        Some e \<Rightarrow> (Inl e, db)
      | None \<Rightarrow>
          (if docs db (collection, newId) \<noteq> None then (Inl already_exists, db)
           else (let document = payload(''$id'' \<mapsto> JStr newId)
                 in (Inr document, db\<lparr>docs := (docs db)((collection, newId) \<mapsto> document)\<rparr>))))"

text \<open>\<^verbatim>\<open>DisputeService.create\<close>; \<open>now\<close> is \<^verbatim>\<open>new Date().toISOString()\<close>.\<close>

definition dispute_fields :: "obj \<Rightarrow> string \<Rightarrow> obj" where
  "dispute_fields disputeData now =
     map_of
       [(''job_id'', js_get disputeData ''jobId''),
        (''complainant_id'', js_get disputeData ''complainantId''),
        (''respondent_id'', js_get disputeData ''respondentId''),
        (''dispute_type'', js_get disputeData ''disputeType''),
        (''description'', js_get disputeData ''description''),
        (''evidence_urls'', js_or (js_get disputeData ''evidenceUrls'') (JArr [])),
        (''amount_in_dispute'', js_get disputeData ''amountInDispute''),
        (''status'', JStr ''open''),
        (''priority'', js_or (js_get disputeData ''priority'') (JStr ''medium'')),
        (''created_at'', JStr now)]"

definition DisputeService_create ::
  "database \<Rightarrow> obj \<Rightarrow> string \<Rightarrow> string \<Rightarrow> obj api_response \<times> database" where
  "DisputeService_create db disputeData newId now =
     (case createDocument db DISPUTES newId (dispute_fields disputeData now) of
        (Inl e, db1) \<Rightarrow> (Failure (api_error e ''Failed to create dispute''), db1)
      | (Inr dispute, db1) \<Rightarrow> (Success dispute, db1))"

text \<open>\<^verbatim>\<open>PaymentService.create\<close>.\<close>

definition payment_fields :: "obj \<Rightarrow> string \<Rightarrow> obj" where
  "payment_fields paymentData now =
     map_of
       [(''job_id'', js_get paymentData ''jobId''),
        (''payer_id'', js_get paymentData ''payerId''),
        (''recipient_id'', js_get paymentData ''recipientId''),
        (''amount'', js_get paymentData ''amount''),
        (''currency'', js_or (js_get paymentData ''currency'') (JStr ''BWP'')),
        (''payment_method'', js_get paymentData ''paymentMethod''),
        (''status'', JStr ''pending''),
        (''escrow_status'', JStr ''held''),
        (''created_at'', JStr now)]"

definition PaymentService_create ::
  "database \<Rightarrow> obj \<Rightarrow> string \<Rightarrow> string \<Rightarrow> obj api_response \<times> database" where
  "PaymentService_create db paymentData newId now =
     (case createDocument db PAYMENTS newId (payment_fields paymentData now) of
        (Inl e, db1) \<Rightarrow> (Failure (api_error e ''Failed to create payment''), db1)
      | (Inr payment, db1) \<Rightarrow> (Success payment, db1))"

text \<open>\<^verbatim>\<open>ApplicationService.create\<close>.\<close>

definition application_fields :: "obj \<Rightarrow> string \<Rightarrow> obj" where
  "application_fields applicationData now =
     map_of
       [(''job_id'', js_get applicationData ''jobId''),
        (''applicant_id'', js_get applicationData ''applicantId''),
        (''cover_letter'', js_get applicationData ''coverLetter''),
        (''proposed_price'', js_get applicationData ''proposedPrice''),
        (''estimated_completion'', js_get applicationData ''estimatedCompletion''),
        (''status'', JStr ''pending''),
        (''applied_at'', JStr now)]"

definition ApplicationService_create ::
  "database \<Rightarrow> obj \<Rightarrow> string \<Rightarrow> string \<Rightarrow> obj api_response \<times> database" where
  "ApplicationService_create db applicationData newId now =
     (case createDocument db APPLICATIONS newId (application_fields applicationData now) of
        (Inl e, db1) \<Rightarrow> (Failure (api_error e ''Failed to create application''), db1)
      | (Inr application, db1) \<Rightarrow> (Success application, db1))"

text \<open>
  \<^verbatim>\<open>JobService.createJob\<close>: \<^verbatim>\<open>{...jobData, status: 'open', postedAt: now, isFeatured: false}\<close>;
  the properties written after the spread replace those of \<^verbatim>\<open>jobData\<close>.
\<close>

definition job_fields :: "obj \<Rightarrow> string \<Rightarrow> obj" where
  "job_fields jobData now =
     jobData ++ map_of [(''status'', JStr ''open''),
                        (''postedAt'', JStr now),
                        (''isFeatured'', JBool False)]"

definition JobService_createJob ::
  "database \<Rightarrow> obj \<Rightarrow> string \<Rightarrow> string \<Rightarrow> obj api_response \<times> database" where
  "JobService_createJob db jobData newId now =
     (case createDocument db JOBS newId (job_fields jobData now) of
        (Inl e, db1) \<Rightarrow> (Failure (api_error e ''Failed to create job''), db1)
      | (Inr job, db1) \<Rightarrow> (Success job, db1))"

section \<open>Reference notions and example data\<close>

text \<open>
  The deduplication policy as the specification words it: of the documents sharing an
  identity, the first one in source-query order survives.
\<close>

fun first_occurrences :: "('a \<Rightarrow> string) \<Rightarrow> 'a list \<Rightarrow> 'a list" where
  "first_occurrences ident [] = []"
| "first_occurrences ident (x # xs) =
     x # filter (\<lambda>y. ident y \<noteq> ident x) (first_occurrences ident xs)"

text \<open>Rounding to the nearest integer, a half going away from zero.\<close>

definition round_half_away :: "rat \<Rightarrow> int" where
  "round_half_away x = (if 0 \<le> x then \<lfloor>x + 1 / 2\<rfloor> else - \<lfloor>- x + 1 / 2\<rfloor>)"

text \<open>The numbers of a list added up from the left, starting from 0, as \<^verbatim>\<open>reduce\<close> does.\<close>

definition js_sum :: "rat list \<Rightarrow> jsnum" where
  "js_sum xs = foldl (\<lambda>sum x. js_add sum (js_number x)) (Num 0) xs"

text \<open>A dispute between two users, an open one unless said otherwise, and a payment.\<close>

definition dispute_between :: "string \<Rightarrow> string \<Rightarrow> string \<Rightarrow> int \<Rightarrow> dispute" where
  "dispute_between ident complainant respondent created =
     \<lparr>dsp_id = ident, dsp_complainant_id = complainant, dsp_respondent_id = respondent,
      dsp_dispute_type = ''quality'', dsp_status = ''open'', dsp_priority = ''medium'',
      dsp_created_at = created, dsp_resolved_at = None\<rparr>"

definition payment_between :: "string \<Rightarrow> string \<Rightarrow> string \<Rightarrow> rat \<Rightarrow> int \<Rightarrow> payment" where
  "payment_between ident payer recipient amount created =
     \<lparr>pay_id = ident, pay_payer_id = payer, pay_recipient_id = recipient, pay_amount = amount,
      pay_status = ''pending'', pay_created_at = created\<rparr>"

definition involving :: "string \<Rightarrow> dispute_filters" where
  "involving userId =
     \<lparr>flt_status = None, flt_priority = None, flt_disputeType = None, flt_userId = Some userId\<rparr>"

text \<open>
  A backend that rejects, with the error \<open>e\<close>, every query holding an equality on the
  attribute \<open>attr\<close>, and answers every other query with no documents.
\<close>

definition failing_on :: "string \<Rightarrow> exn \<Rightarrow> query list \<Rightarrow> exn + 'd paginated" where
  "failing_on attr e queries =
     (if list_ex (\<lambda>q. case q of Equal a v \<Rightarrow> a = attr | _ \<Rightarrow> False) queries then Inl e
      else Inr \<lparr>documents = [], total = 0\<rparr>)"

text \<open>A review with the given rating, and a dispute resolved two hours after it was raised.\<close>

definition rated :: "rat \<Rightarrow> review" where
  "rated x =
     \<lparr>rev_id = ''r'', rev_job_id = ''j'', rev_reviewer_id = ''a'', rev_reviewee_id = ''u'',
      rev_rating = x, rev_comment = None, rev_review_type = ''seeker_to_provider'',
      rev_created_at = 0, rev_updated_at = None\<rparr>"

definition resolved_dispute :: dispute where
  "resolved_dispute =
     (dispute_between ''d1'' ''u'' ''v'' 0)
       \<lparr>dsp_status := ''resolved_in_favor_of_seeker'', dsp_resolved_at := Some 7200000\<rparr>"

text \<open>
  The hours a dispute took, the disputes \<^verbatim>\<open>getStats\<close> lets into its resolution time, and
  the disputes that are resolved and carry \<^verbatim>\<open>resolved_at\<close>.
\<close>

definition hours_taken :: "dispute \<Rightarrow> rat" where
  "hours_taken d = resolutionHours d (the (dsp_resolved_at d))"

definition counted_by_getStats :: "dispute \<Rightarrow> bool" where
  "counted_by_getStats d \<longleftrightarrow> dsp_status d = ''resolved'' \<and> dsp_resolved_at d \<noteq> None"

definition resolved_with_time :: "dispute \<Rightarrow> bool" where
  "resolved_with_time d \<longleftrightarrow>
     (dsp_status d = ''resolved_in_favor_of_seeker'' \<or> dsp_status d = ''resolved_in_favor_of_provider'')
     \<and> dsp_resolved_at d \<noteq> None"

text \<open>
  A world with one review of user \<open>u\<close>, rated 3, and the profile of \<open>u\<close>; the same
  world with a fault injected; a request to review \<open>u\<close>, and an update of the rating.
\<close>

definition stored_review :: review where
  "stored_review = (rated 3)\<lparr>rev_id := ''r1''\<rparr>"

definition new_rating :: "rat \<Rightarrow> update_review_request" where
  "new_rating x = \<lparr>upd_rating = Some x, upd_comment = None\<rparr>"

definition example_world :: world where
  "example_world =
     \<lparr>reviews = [stored_review],
      profiles = [''u'' \<mapsto> \<lparr>average_rating = Num 3, total_reviews = 1, profile_updated_at = None\<rparr>],
      console = [],
      calls = [],
      faults = (\<lambda>c. None)\<rparr>"

definition with_fault :: "backend_call \<Rightarrow> exn \<Rightarrow> world \<Rightarrow> world" where
  "with_fault c e w = w\<lparr>faults := (faults w)(c := Some e)\<rparr>"

definition rejecting_world :: world where
  "rejecting_world = with_fault (UpdateDocument PROFILES) ''rejected'' example_world"

definition example_request :: create_review_request where
  "example_request =
     \<lparr>crr_jobId = ''j'', crr_reviewerId = ''b'', crr_revieweeId = ''u'', crr_rating = 5,
      crr_comment = None, crr_reviewType = ''seeker_to_provider''\<rparr>"

text \<open>
  An empty store, and a request object that carries a status, an escrow status, a
  featured flag and a priority of its own.
\<close>

definition empty_database :: database where
  "empty_database = \<lparr>docs = Map.empty, rejects = (\<lambda>c. None)\<rparr>"

definition status_request :: obj where
  "status_request =
     map_of [(''jobId'', JStr ''j1''), (''status'', JStr ''resolved''),
             (''escrow_status'', JStr ''released''), (''isFeatured'', JBool True),
             (''priority'', JStr ''high'')]"

section \<open>Properties of the helpers\<close>

lemma insert_by_newest_first:
  "insert_by (newest_first time) x ys = insort_key (\<lambda>d. - time d) x ys"
  by (induction ys) (auto simp: newest_first_def)

lemma js_sort_newest_first:
  "js_sort (newest_first time) xs = sort_key (\<lambda>d. - time d) xs"
  by (induction xs) (simp_all add: js_sort_def insert_by_newest_first)

lemma sorted_newest_first:
  "sorted_wrt (\<lambda>a b. time b \<le> time a) (js_sort (newest_first time) xs)"
proof -
  have "sorted (map (\<lambda>d. - time d) (sort_key (\<lambda>d. - time d) xs))" by simp
  then show ?thesis
    by (simp add: js_sort_newest_first sorted_map)
qed

lemma stable_newest_first:
  "filter (\<lambda>d. time d = t) (js_sort (newest_first time) xs) = filter (\<lambda>d. time d = t) xs"
  using sort_key_stable [of "\<lambda>d. - time d" "- t" xs]
  by (simp add: js_sort_newest_first)

lemma set_js_sort: "set (js_sort (newest_first time) xs) = set xs"
  by (simp add: js_sort_newest_first)

lemma length_js_sort: "length (js_sort (newest_first time) xs) = length xs"
  by (simp add: js_sort_newest_first)

lemma sorted_wrt_slice: "sorted_wrt R xs \<Longrightarrow> sorted_wrt R (slice b e xs)"
  by (simp add: slice_def sorted_wrt_take sorted_wrt_drop)

lemma set_slice: "set (slice b e xs) \<subseteq> set xs"
  by (auto simp: slice_def dest: in_set_takeD in_set_dropD)

lemma findIndex_ge: "- 1 \<le> findIndex p xs"
  by (induction xs) (auto simp: Let_def)

lemma findIndex_at:
  "findIndex p (pre @ x # xs) = int (length pre) \<longleftrightarrow> p x \<and> (\<forall>y \<in> set pre. \<not> p y)"
proof (induction pre)
  case Nil
  have "- 1 \<le> findIndex p xs" by (rule findIndex_ge)
  then show ?case by (auto simp: Let_def)
next
  case (Cons a pre)
  have "- 1 \<le> findIndex p (pre @ x # xs)" by (rule findIndex_ge)
  with Cons show ?case by (auto simp: Let_def)
qed

lemma kept_from:
  "map snd (filter (\<lambda>(index, d). int index = findIndex (\<lambda>e. ident e = ident d) (pre @ xs))
                   (enumerate (length pre) xs))
   = filter (\<lambda>d. ident d \<notin> ident ` set pre) (first_occurrences ident xs)"
proof (induction xs arbitrary: pre)
  case Nil
  then show ?case by simp
next
  case (Cons x xs)
  have here: "int (length pre) = findIndex (\<lambda>e. ident e = ident x) (pre @ x # xs)
              \<longleftrightarrow> ident x \<notin> ident ` set pre"
    using findIndex_at [of "\<lambda>e. ident e = ident x" pre x xs] by (auto simp: image_iff)
  have rest: "map snd (filter (\<lambda>(index, d). int index = findIndex (\<lambda>e. ident e = ident d) (pre @ x # xs))
                   (enumerate (Suc (length pre)) xs))
     = filter (\<lambda>d. ident d \<notin> ident ` set (pre @ [x])) (first_occurrences ident xs)"
    using Cons.IH [of "pre @ [x]"] by simp
  show ?case
    using here rest by (auto simp: filter_filter conj_commute intro!: filter_cong)
qed

lemma unique_by_first_occurrences: "unique_by ident xs = first_occurrences ident xs"
  using kept_from [of ident "[]" xs] by (simp add: unique_by_def)

lemma set_first_occurrences: "ident ` set (first_occurrences ident xs) = ident ` set xs"
proof (induction xs)
  case Nil
  then show ?case by simp
next
  case (Cons x xs)
  have "ident ` {y \<in> set (first_occurrences ident xs). ident y \<noteq> ident x}
        = ident ` set (first_occurrences ident xs) - {ident x}"
    by auto
  with Cons show ?case by auto
qed

lemma first_occurrences_subset: "set (first_occurrences ident xs) \<subseteq> set xs"
  by (induction xs) auto

lemma distinct_first_occurrences: "distinct (map ident (first_occurrences ident xs))"
proof (induction xs)
  case Nil
  then show ?case by simp
next
  case (Cons x xs)
  then show ?case by (auto simp: distinct_map_filter)
qed

lemma length_unique_by: "length (unique_by ident xs) = card (ident ` set xs)"
proof -
  have "length (unique_by ident xs) = length (map ident (first_occurrences ident xs))"
    by (simp add: unique_by_first_occurrences)
  also have "\<dots> = card (set (map ident (first_occurrences ident xs)))"
    using distinct_card [OF distinct_first_occurrences [of ident xs]] by presburger
  also have "\<dots> = card (ident ` set xs)"
    by (simp add: set_first_occurrences)
  finally show ?thesis .
qed

section \<open>The fan-out merges\<close>

text \<open>What each merge returns once both source queries have answered.\<close>

lemma getAll_fanout:
  assumes "truthy_str (flt_userId filters)"
    and "listDocuments (getAll_queries filters limit offset
           @ [Equal ''complainant_id'' (the (flt_userId filters))]) = Inr c"
    and "listDocuments (getAll_queries filters limit offset
           @ [Equal ''respondent_id'' (the (flt_userId filters))]) = Inr r"
  shows "DisputeService_getAll listDocuments race filters limit offset =
     Success \<lparr>documents = slice offset (offset + limit)
                 (js_sort (newest_first dsp_created_at) (unique_by dsp_id (documents c @ documents r))),
              total = length (unique_by dsp_id (documents c @ documents r))\<rparr>"
  using assms
  by (simp add: DisputeService_getAll_def getAll_response_def promise_all2_def Let_def)

lemma getUserDisputes_fanout:
  assumes "listDocuments [OrderDesc ''created_at'', Limit limit, Offset offset,
                          Equal ''complainant_id'' userId] = Inr c"
    and "listDocuments [OrderDesc ''created_at'', Limit limit, Offset offset,
                        Equal ''respondent_id'' userId] = Inr r"
  shows "DisputeService_getUserDisputes listDocuments race userId AllRoles limit offset =
     Success \<lparr>documents = slice offset (offset + limit)
                 (js_sort (newest_first dsp_created_at) (documents c @ documents r)),
              total = total c + total r\<rparr>"
  using assms
  by (simp add: DisputeService_getUserDisputes_def getUserDisputes_response_def promise_all2_def
      Let_def)

lemma getUserPayments_fanout:
  assumes "listDocuments [Equal ''payer_id'' userId, OrderDesc ''created_at'',
                          Limit limit, Offset offset] = Inr s"
    and "listDocuments [Equal ''recipient_id'' userId, OrderDesc ''created_at'',
                        Limit limit, Offset offset] = Inr r"
  shows "PaymentService_getUserPayments listDocuments race userId AllPayments limit offset =
     Success \<lparr>documents = slice offset (offset + limit)
                 (js_sort (newest_first pay_created_at) (documents s @ documents r)),
              total = total s + total r\<rparr>"
  using assms
  by (simp add: PaymentService_getUserPayments_def getUserPayments_response_def promise_all2_def
      Let_def)

text \<open>
  \<^verbatim>\<open>DisputeService.getAll\<close> removes duplicates: a page of its fan-out branch holds no
  identity twice.
\<close>

lemma distinct_ids_page:
  "distinct (map ident (slice b e (js_sort (newest_first time) (unique_by ident xs))))"
proof -
  let ?ys = "sort_key (\<lambda>d. - time d) (first_occurrences ident xs)"
  have "distinct (map ident (first_occurrences ident xs))"
    by (rule distinct_first_occurrences)
  then have "distinct (first_occurrences ident xs) \<and> inj_on ident (set (first_occurrences ident xs))"
    by (simp only: distinct_map)
  then have "distinct ?ys \<and> inj_on ident (set ?ys)"
    by simp
  then have "distinct (map ident ?ys)"
    by (simp only: distinct_map)
  then have "distinct (take (e - b) (drop b (map ident ?ys)))"
    by simp
  then show ?thesis
    by (simp only: slice_def js_sort_newest_first unique_by_first_occurrences take_map drop_map)
qed

lemma getAll_fanout_cases:
  assumes "truthy_str (flt_userId filters)"
    and "DisputeService_getAll listDocuments race filters limit offset = Success page"
  obtains c r where
    "listDocuments (getAll_queries filters limit offset
           @ [Equal ''complainant_id'' (the (flt_userId filters))]) = Inr c"
    "listDocuments (getAll_queries filters limit offset
           @ [Equal ''respondent_id'' (the (flt_userId filters))]) = Inr r"
proof -
  let ?a = "listDocuments (getAll_queries filters limit offset
           @ [Equal ''complainant_id'' (the (flt_userId filters))])"
  let ?b = "listDocuments (getAll_queries filters limit offset
           @ [Equal ''respondent_id'' (the (flt_userId filters))])"
  from assms have "\<exists>c r. ?a = Inr c \<and> ?b = Inr r"
    by (cases ?a; cases ?b)
       (simp_all add: DisputeService_getAll_def getAll_response_def promise_all2_def Let_def)
  then show ?thesis using that by blast
qed

lemma getAll_ids_distinct:
  assumes "truthy_str (flt_userId filters)"
    and "DisputeService_getAll listDocuments race filters limit offset = Success page"
  shows "distinct (map dsp_id (documents page))"
proof -
  from assms obtain c r where
    "listDocuments (getAll_queries filters limit offset
           @ [Equal ''complainant_id'' (the (flt_userId filters))]) = Inr c"
    "listDocuments (getAll_queries filters limit offset
           @ [Equal ''respondent_id'' (the (flt_userId filters))]) = Inr r"
    by (rule getAll_fanout_cases)
  from getAll_fanout [OF assms(1) this, of race] assms(2)
  have "documents page = slice offset (offset + limit)
                 (js_sort (newest_first dsp_created_at) (unique_by dsp_id (documents c @ documents r)))"
    by auto
  then show ?thesis by (simp only: distinct_ids_page)
qed

lemma getAll_overlap_once:
  "DisputeService_getAll
       (disputes_of [dispute_between ''d1'' ''u'' ''u'' 1000]) False (involving ''u'') 20 0
     = Success \<lparr>documents = [dispute_between ''d1'' ''u'' ''u'' 1000], total = 1\<rparr>"
  by code_simp

text \<open>Source answers over a store whose one document satisfies both predicates.\<close>

lemma source_c: "disputes_of [dispute_between ''d1'' ''u'' ''u'' 1000]
           (getAll_queries (involving ''u'') 20 0 @ [Equal ''complainant_id'' ''u''])
         = Inr \<lparr>documents = [dispute_between ''d1'' ''u'' ''u'' 1000], total = 1\<rparr>"
  by code_simp

lemma source_r: "disputes_of [dispute_between ''d1'' ''u'' ''u'' 1000]
           (getAll_queries (involving ''u'') 20 0 @ [Equal ''respondent_id'' ''u''])
         = Inr \<lparr>documents = [dispute_between ''d1'' ''u'' ''u'' 1000], total = 1\<rparr>"
  by code_simp

lemma user_source_c: "disputes_of [dispute_between ''d1'' ''u'' ''u'' 1000]
           [OrderDesc ''created_at'', Limit 20, Offset 0, Equal ''complainant_id'' ''u'']
         = Inr \<lparr>documents = [dispute_between ''d1'' ''u'' ''u'' 1000], total = 1\<rparr>"
  by code_simp

lemma user_source_r: "disputes_of [dispute_between ''d1'' ''u'' ''u'' 1000]
           [OrderDesc ''created_at'', Limit 20, Offset 0, Equal ''respondent_id'' ''u'']
         = Inr \<lparr>documents = [dispute_between ''d1'' ''u'' ''u'' 1000], total = 1\<rparr>"
  by code_simp

lemma pay_source_s: "payments_of [payment_between ''p1'' ''u'' ''u'' 50 1000]
           [Equal ''payer_id'' ''u'', OrderDesc ''created_at'', Limit 20, Offset 0]
         = Inr \<lparr>documents = [payment_between ''p1'' ''u'' ''u'' 50 1000], total = 1\<rparr>"
  by code_simp

lemma pay_source_r: "payments_of [payment_between ''p1'' ''u'' ''u'' 50 1000]
           [Equal ''recipient_id'' ''u'', OrderDesc ''created_at'', Limit 20, Offset 0]
         = Inr \<lparr>documents = [payment_between ''p1'' ''u'' ''u'' 50 1000], total = 1\<rparr>"
  by code_simp

lemma involving_user:
  "truthy_str (flt_userId (involving ''u'')) \<and> the (flt_userId (involving ''u'')) = ''u''"
  by (simp add: involving_def)

subsection \<open>Claim C1: duplicates across the two source results\<close>

text \<open>
  Claim C1 says that every fan-out merge returns a document satisfying both source
  predicates exactly once. \<^verbatim>\<open>DisputeService.getAll\<close> filters duplicates out
  (\<open>getAll_ids_distinct\<close>, \<open>getAll_overlap_once\<close>); \<^verbatim>\<open>getUserDisputes\<close> with role
  \<^verbatim>\<open>'all'\<close> and \<^verbatim>\<open>getUserPayments\<close> with type \<^verbatim>\<open>'all'\<close> concatenate and sort without
  that step. With one dispute whose complainant and respondent are both \<open>u\<close>, and one
  payment that \<open>u\<close> both sent and received, each of the two returns the document twice.
\<close>

theorem fanout_overlap_returned_twice:
  "DisputeService_getUserDisputes
       (disputes_of [dispute_between ''d1'' ''u'' ''u'' 1000]) False ''u'' AllRoles 20 0
     = Success \<lparr>documents = [dispute_between ''d1'' ''u'' ''u'' 1000,
                              dispute_between ''d1'' ''u'' ''u'' 1000], total = 2\<rparr>
   \<and> PaymentService_getUserPayments
       (payments_of [payment_between ''p1'' ''u'' ''u'' 50 1000]) False ''u'' AllPayments 20 0
     = Success \<lparr>documents = [payment_between ''p1'' ''u'' ''u'' 50 1000,
                              payment_between ''p1'' ''u'' ''u'' 50 1000], total = 2\<rparr>"
  by code_simp

subsection \<open>Claim C2: the reported total\<close>

text \<open>
  Claim C2 says that every fan-out merge reports the sum of the source queries' totals.
  \<^verbatim>\<open>DisputeService.getAll\<close> does not: it reports \<^verbatim>\<open>uniqueDisputes.length\<close>. Over the
  one-dispute store above each source query has total 1, the sum is 2, and the reported
  total is 1.
\<close>

theorem getAll_total_is_not_the_sum:
  "\<exists>c r page.
     disputes_of [dispute_between ''d1'' ''u'' ''u'' 1000]
        (getAll_queries (involving ''u'') 20 0 @ [Equal ''complainant_id'' ''u'']) = Inr c
   \<and> disputes_of [dispute_between ''d1'' ''u'' ''u'' 1000]
        (getAll_queries (involving ''u'') 20 0 @ [Equal ''respondent_id'' ''u'']) = Inr r
   \<and> DisputeService_getAll (disputes_of [dispute_between ''d1'' ''u'' ''u'' 1000]) False
        (involving ''u'') 20 0 = Success page
   \<and> total c + total r = 2 \<and> total page = 1"
  using source_c source_r getAll_overlap_once by simp

text \<open>
  Claim C2, amended: when both source queries answer, \<^verbatim>\<open>getUserDisputes\<close> (role
  \<^verbatim>\<open>'all'\<close>) and \<^verbatim>\<open>getUserPayments\<close> (type \<^verbatim>\<open>'all'\<close>) report the sum of the two source
  totals, so a document satisfying both predicates is counted twice; \<^verbatim>\<open>getAll\<close> with a
  user filter reports the number of documents left after deduplicating the two fetched
  source pages, which is the number of distinct identities among them.
\<close>

theorem fanout_total:
  "(truthy_str (flt_userId filters)
    \<and> disputeList (getAll_queries filters limit offset
           @ [Equal ''complainant_id'' (the (flt_userId filters))]) = Inr c
    \<and> disputeList (getAll_queries filters limit offset
           @ [Equal ''respondent_id'' (the (flt_userId filters))]) = Inr r
    \<longrightarrow> (\<exists>page. DisputeService_getAll disputeList race filters limit offset = Success page
           \<and> total page = length (unique_by dsp_id (documents c @ documents r))
           \<and> total page = card (dsp_id ` set (documents c @ documents r))))
   \<and> (disputeList [OrderDesc ''created_at'', Limit limit, Offset offset,
                     Equal ''complainant_id'' userId] = Inr c'
      \<and> disputeList [OrderDesc ''created_at'', Limit limit, Offset offset,
                       Equal ''respondent_id'' userId] = Inr r'
    \<longrightarrow> (\<exists>page. DisputeService_getUserDisputes disputeList race userId AllRoles limit offset
                    = Success page
           \<and> total page = total c' + total r'))
   \<and> (paymentList [Equal ''payer_id'' userId, OrderDesc ''created_at'',
                     Limit limit, Offset offset] = Inr s
      \<and> paymentList [Equal ''recipient_id'' userId, OrderDesc ''created_at'',
                       Limit limit, Offset offset] = Inr r''
    \<longrightarrow> (\<exists>page. PaymentService_getUserPayments paymentList race userId AllPayments limit offset
                    = Success page
           \<and> total page = total s + total r''))"
proof (intro conjI impI)
  assume "truthy_str (flt_userId filters)
    \<and> disputeList (getAll_queries filters limit offset
           @ [Equal ''complainant_id'' (the (flt_userId filters))]) = Inr c
    \<and> disputeList (getAll_queries filters limit offset
           @ [Equal ''respondent_id'' (the (flt_userId filters))]) = Inr r"
  then show "\<exists>page. DisputeService_getAll disputeList race filters limit offset = Success page
           \<and> total page = length (unique_by dsp_id (documents c @ documents r))
           \<and> total page = card (dsp_id ` set (documents c @ documents r))"
    using getAll_fanout [of filters disputeList limit offset c r race]
    by (simp add: length_unique_by)
next
  assume "disputeList [OrderDesc ''created_at'', Limit limit, Offset offset,
                     Equal ''complainant_id'' userId] = Inr c'
      \<and> disputeList [OrderDesc ''created_at'', Limit limit, Offset offset,
                       Equal ''respondent_id'' userId] = Inr r'"
  then show "\<exists>page. DisputeService_getUserDisputes disputeList race userId AllRoles limit offset
                    = Success page \<and> total page = total c' + total r'"
    using getUserDisputes_fanout [of disputeList limit offset userId c' r' race] by simp
next
  assume "paymentList [Equal ''payer_id'' userId, OrderDesc ''created_at'',
                     Limit limit, Offset offset] = Inr s
      \<and> paymentList [Equal ''recipient_id'' userId, OrderDesc ''created_at'',
                       Limit limit, Offset offset] = Inr r''"
  then show "\<exists>page. PaymentService_getUserPayments paymentList race userId AllPayments limit offset
                    = Success page \<and> total page = total s + total r''"
    using getUserPayments_fanout [of paymentList userId limit offset s r'' race] by simp
qed

theorem fanout_total_witness:
  "(\<exists>page. DisputeService_getAll (disputes_of [dispute_between ''d1'' ''u'' ''u'' 1000]) False
              (involving ''u'') 20 0 = Success page \<and> total page = 1)
   \<and> (\<exists>page. DisputeService_getUserDisputes (disputes_of [dispute_between ''d1'' ''u'' ''u'' 1000])
              False ''u'' AllRoles 20 0 = Success page \<and> total page = 2)
   \<and> (\<exists>page. PaymentService_getUserPayments (payments_of [payment_between ''p1'' ''u'' ''u'' 50 1000])
              False ''u'' AllPayments 20 0 = Success page \<and> total page = 2)"
  using fanout_total [of "involving ''u''" "disputes_of [dispute_between ''d1'' ''u'' ''u'' 1000]"
      20 0 "\<lparr>documents = [dispute_between ''d1'' ''u'' ''u'' 1000], total = 1\<rparr>"
      "\<lparr>documents = [dispute_between ''d1'' ''u'' ''u'' 1000], total = 1\<rparr>" False "''u''"
      "\<lparr>documents = [dispute_between ''d1'' ''u'' ''u'' 1000], total = 1\<rparr>"
      "\<lparr>documents = [dispute_between ''d1'' ''u'' ''u'' 1000], total = 1\<rparr>"
      "payments_of [payment_between ''p1'' ''u'' ''u'' 50 1000]"
      "\<lparr>documents = [payment_between ''p1'' ''u'' ''u'' 50 1000], total = 1\<rparr>"
      "\<lparr>documents = [payment_between ''p1'' ''u'' ''u'' 50 1000], total = 1\<rparr>"]
    source_c source_r user_source_c user_source_r pay_source_s pay_source_r involving_user
  by (auto simp add: numeral_2_eq_2)

subsection \<open>Claim C7: pagination of the merged set\<close>

text \<open>
  Claim C7 says that the source queries are issued without pagination and that the
  window is applied once, to the merged set, so that successive pages tile it. The code
  puts \<^verbatim>\<open>Query.limit(limit)\<close> and \<^verbatim>\<open>Query.offset(offset)\<close> into both source queries and
  then slices the merged list by the same offset again. With two disputes involving
  \<open>u\<close> and a page size of 1, the first page holds the newer dispute and every later
  page is empty: the older dispute is on no page.
\<close>

theorem fanout_pages_lose_documents:
  "DisputeService_getAll
       (disputes_of [dispute_between ''d1'' ''u'' ''v'' 2000, dispute_between ''d2'' ''w'' ''u'' 1000])
       False (involving ''u'') 1 0
     = Success \<lparr>documents = [dispute_between ''d1'' ''u'' ''v'' 2000], total = 2\<rparr>
   \<and> (\<forall>k. DisputeService_getAll
       (disputes_of [dispute_between ''d1'' ''u'' ''v'' 2000, dispute_between ''d2'' ''w'' ''u'' 1000])
       False (involving ''u'') 1 (Suc k)
     = Success \<lparr>documents = [], total = 0\<rparr>)"
  apply (rule conjI)
   apply code_simp
  apply (simp add: DisputeService_getAll_def getAll_response_def getAll_queries_def push_equal_def
      involving_def disputes_of_def store_list_def dispute_between_def dispute_attr_def
      promise_all2_def unique_by_def slice_def js_sort_def)
  done

subsection \<open>Claim C6: order within a page\<close>

text \<open>
  Claim C6 says that a page is ordered by \<^verbatim>\<open>created_at\<close> descending and that documents
  with equal \<^verbatim>\<open>created_at\<close> are ordered by identity ascending. The comparator looks at
  \<^verbatim>\<open>created_at\<close> only and the sort is stable, so equal timestamps keep the order of the
  concatenated source results. Two disputes created at the same time, \<open>b\<close> found by
  the complainant query and \<open>a\<close> by the respondent query, are returned as \<open>b, a\<close>.
\<close>

theorem fanout_ties_keep_source_order:
  "\<exists>page. DisputeService_getAll
       (disputes_of [dispute_between ''b'' ''u'' ''v'' 1000, dispute_between ''a'' ''w'' ''u'' 1000])
       False (involving ''u'') 20 0 = Success page
     \<and> map dsp_id (documents page) = [''b'', ''a'']
     \<and> map dsp_created_at (documents page) = [1000, 1000]
     \<and> ''a'' < ''b''"
proof -
  have "DisputeService_getAll
       (disputes_of [dispute_between ''b'' ''u'' ''v'' 1000, dispute_between ''a'' ''w'' ''u'' 1000])
       False (involving ''u'') 20 0
     = Success \<lparr>documents = [dispute_between ''b'' ''u'' ''v'' 1000,
                              dispute_between ''a'' ''w'' ''u'' 1000], total = 2\<rparr>"
    by code_simp
  then show ?thesis by (simp add: dispute_between_def)
qed

lemma page_order:
  "sorted_wrt (\<lambda>a b. time b \<le> time a) (slice b e (js_sort (newest_first time) xs))"
  by (rule sorted_wrt_slice) (rule sorted_newest_first)

lemma tie_source_c: "disputes_of [dispute_between ''b'' ''u'' ''v'' 1000, dispute_between ''a'' ''w'' ''u'' 1000]
           (getAll_queries (involving ''u'') 20 0 @ [Equal ''complainant_id'' ''u''])
         = Inr \<lparr>documents = [dispute_between ''b'' ''u'' ''v'' 1000], total = 1\<rparr>"
  by code_simp

lemma tie_source_r: "disputes_of [dispute_between ''b'' ''u'' ''v'' 1000, dispute_between ''a'' ''w'' ''u'' 1000]
           (getAll_queries (involving ''u'') 20 0 @ [Equal ''respondent_id'' ''u''])
         = Inr \<lparr>documents = [dispute_between ''a'' ''w'' ''u'' 1000], total = 1\<rparr>"
  by code_simp

text \<open>
  Claim C6, amended: in every page of \<^verbatim>\<open>DisputeService.getAll\<close> (with a user filter) and
  of \<^verbatim>\<open>PaymentService.getUserPayments\<close> (type \<^verbatim>\<open>'all'\<close>), \<^verbatim>\<open>created_at\<close> never increases
  from one document to the next; the page is a window of a merged list in which the
  documents with any one \<^verbatim>\<open>created_at\<close> value stand in the order they have in the
  concatenation of the first and the second source result (after deduplication, for
  \<^verbatim>\<open>getAll\<close>). There is no tie-break on the identity.
\<close>

theorem fanout_page_order:
  "(truthy_str (flt_userId filters)
    \<and> disputeList (getAll_queries filters limit offset
           @ [Equal ''complainant_id'' (the (flt_userId filters))]) = Inr c
    \<and> disputeList (getAll_queries filters limit offset
           @ [Equal ''respondent_id'' (the (flt_userId filters))]) = Inr r
    \<longrightarrow> (\<exists>page merged.
           DisputeService_getAll disputeList race filters limit offset = Success page
           \<and> documents page = slice offset (offset + limit) merged
           \<and> sorted_wrt (\<lambda>a b. dsp_created_at b \<le> dsp_created_at a) merged
           \<and> sorted_wrt (\<lambda>a b. dsp_created_at b \<le> dsp_created_at a) (documents page)
           \<and> (\<forall>t. filter (\<lambda>d. dsp_created_at d = t) merged
                   = filter (\<lambda>d. dsp_created_at d = t)
                       (first_occurrences dsp_id (documents c @ documents r)))))
   \<and> (paymentList [Equal ''payer_id'' userId, OrderDesc ''created_at'',
                     Limit limit, Offset offset] = Inr s
      \<and> paymentList [Equal ''recipient_id'' userId, OrderDesc ''created_at'',
                       Limit limit, Offset offset] = Inr r'
    \<longrightarrow> (\<exists>page merged.
           PaymentService_getUserPayments paymentList race userId AllPayments limit offset
             = Success page
           \<and> documents page = slice offset (offset + limit) merged
           \<and> sorted_wrt (\<lambda>a b. pay_created_at b \<le> pay_created_at a) merged
           \<and> sorted_wrt (\<lambda>a b. pay_created_at b \<le> pay_created_at a) (documents page)
           \<and> (\<forall>t. filter (\<lambda>p. pay_created_at p = t) merged
                   = filter (\<lambda>p. pay_created_at p = t) (documents s @ documents r'))))"
proof (intro conjI impI)
  assume a: "truthy_str (flt_userId filters)
    \<and> disputeList (getAll_queries filters limit offset
           @ [Equal ''complainant_id'' (the (flt_userId filters))]) = Inr c
    \<and> disputeList (getAll_queries filters limit offset
           @ [Equal ''respondent_id'' (the (flt_userId filters))]) = Inr r"
  let ?merged = "js_sort (newest_first dsp_created_at) (unique_by dsp_id (documents c @ documents r))"
  have "DisputeService_getAll disputeList race filters limit offset =
     Success \<lparr>documents = slice offset (offset + limit) ?merged,
              total = length (unique_by dsp_id (documents c @ documents r))\<rparr>"
    using a getAll_fanout [of filters disputeList limit offset c r race] by simp
  moreover have "sorted_wrt (\<lambda>a b. dsp_created_at b \<le> dsp_created_at a) ?merged"
    by (rule sorted_newest_first)
  moreover have "sorted_wrt (\<lambda>a b. dsp_created_at b \<le> dsp_created_at a)
                   (slice offset (offset + limit) ?merged)"
    by (rule page_order)
  moreover have "\<forall>t. filter (\<lambda>d. dsp_created_at d = t) ?merged
                   = filter (\<lambda>d. dsp_created_at d = t)
                       (first_occurrences dsp_id (documents c @ documents r))"
    by (simp add: stable_newest_first unique_by_first_occurrences)
  ultimately show "\<exists>page merged.
           DisputeService_getAll disputeList race filters limit offset = Success page
           \<and> documents page = slice offset (offset + limit) merged
           \<and> sorted_wrt (\<lambda>a b. dsp_created_at b \<le> dsp_created_at a) merged
           \<and> sorted_wrt (\<lambda>a b. dsp_created_at b \<le> dsp_created_at a) (documents page)
           \<and> (\<forall>t. filter (\<lambda>d. dsp_created_at d = t) merged
                   = filter (\<lambda>d. dsp_created_at d = t)
                       (first_occurrences dsp_id (documents c @ documents r)))"
    by (intro exI [of _ "\<lparr>documents = slice offset (offset + limit) ?merged,
              total = length (unique_by dsp_id (documents c @ documents r))\<rparr>"]
          exI [of _ ?merged]) simp
next
  assume a: "paymentList [Equal ''payer_id'' userId, OrderDesc ''created_at'',
                     Limit limit, Offset offset] = Inr s
      \<and> paymentList [Equal ''recipient_id'' userId, OrderDesc ''created_at'',
                       Limit limit, Offset offset] = Inr r'"
  let ?merged = "js_sort (newest_first pay_created_at) (documents s @ documents r')"
  have "PaymentService_getUserPayments paymentList race userId AllPayments limit offset =
     Success \<lparr>documents = slice offset (offset + limit) ?merged, total = total s + total r'\<rparr>"
    using a getUserPayments_fanout [of paymentList userId limit offset s r' race] by simp
  moreover have "sorted_wrt (\<lambda>a b. pay_created_at b \<le> pay_created_at a) ?merged"
    by (rule sorted_newest_first)
  moreover have "sorted_wrt (\<lambda>a b. pay_created_at b \<le> pay_created_at a)
                   (slice offset (offset + limit) ?merged)"
    by (rule page_order)
  moreover have "\<forall>t. filter (\<lambda>p. pay_created_at p = t) ?merged
                   = filter (\<lambda>p. pay_created_at p = t) (documents s @ documents r')"
    by (simp only: stable_newest_first) simp
  ultimately show "\<exists>page merged.
           PaymentService_getUserPayments paymentList race userId AllPayments limit offset
             = Success page
           \<and> documents page = slice offset (offset + limit) merged
           \<and> sorted_wrt (\<lambda>a b. pay_created_at b \<le> pay_created_at a) merged
           \<and> sorted_wrt (\<lambda>a b. pay_created_at b \<le> pay_created_at a) (documents page)
           \<and> (\<forall>t. filter (\<lambda>p. pay_created_at p = t) merged
                   = filter (\<lambda>p. pay_created_at p = t) (documents s @ documents r'))"
    by (intro exI [of _ "\<lparr>documents = slice offset (offset + limit) ?merged,
              total = total s + total r'\<rparr>"] exI [of _ ?merged]) simp
qed


theorem fanout_page_order_witness:
  "(\<exists>page. DisputeService_getAll
       (disputes_of [dispute_between ''b'' ''u'' ''v'' 1000, dispute_between ''a'' ''w'' ''u'' 1000])
       False (involving ''u'') 20 0 = Success page
     \<and> sorted_wrt (\<lambda>a b. dsp_created_at b \<le> dsp_created_at a) (documents page))
   \<and> (\<exists>page. PaymentService_getUserPayments (payments_of [payment_between ''p1'' ''u'' ''u'' 50 1000])
              False ''u'' AllPayments 20 0 = Success page
     \<and> sorted_wrt (\<lambda>a b. pay_created_at b \<le> pay_created_at a) (documents page))"
  using fanout_page_order [of "involving ''u''"
      "disputes_of [dispute_between ''b'' ''u'' ''v'' 1000, dispute_between ''a'' ''w'' ''u'' 1000]"
      20 0 "\<lparr>documents = [dispute_between ''b'' ''u'' ''v'' 1000], total = 1\<rparr>"
      "\<lparr>documents = [dispute_between ''a'' ''w'' ''u'' 1000], total = 1\<rparr>" False
      "payments_of [payment_between ''p1'' ''u'' ''u'' 50 1000]" "''u''"
      "\<lparr>documents = [payment_between ''p1'' ''u'' ''u'' 50 1000], total = 1\<rparr>"
      "\<lparr>documents = [payment_between ''p1'' ''u'' ''u'' 50 1000], total = 1\<rparr>"]
    tie_source_c tie_source_r pay_source_s pay_source_r involving_user
  by (simp del: sorted_wrt.simps) blast

subsection \<open>Claim C8: a failing source query\<close>

text \<open>
  Claim C8 says that a failing source query fails the whole merge, without partial
  results, and that the failure names the source that failed. The \<^verbatim>\<open>catch\<close> block
  returns the message of whatever was thrown, or a fixed text: the result is the same
  whether the complainant query or the respondent query was the one rejected.
\<close>

theorem fanout_failure_does_not_name_source:
  "DisputeService_getAll (failing_on ''complainant_id'' ''timeout'') False (involving ''u'') 20 0
     = Failure ''timeout''
   \<and> DisputeService_getAll (failing_on ''respondent_id'' ''timeout'') False (involving ''u'') 20 0
     = Failure ''timeout''
   \<and> DisputeService_getAll (failing_on ''complainant_id'' []) False (involving ''u'') 20 0
     = Failure ''Failed to fetch disputes''
   \<and> DisputeService_getAll (failing_on ''respondent_id'' []) False (involving ''u'') 20 0
     = Failure ''Failed to fetch disputes''"
  by code_simp

lemma promise_all2_fails:
  "isl a \<or> isl b \<Longrightarrow>
   \<exists>e. promise_all2 race a b = Inl e \<and> (a = Inl e \<or> b = Inl e)"
  by (cases a; cases b) (simp_all add: promise_all2_def)

lemma failing_sources:
  "isl (failing_on ''respondent_id'' ''timeout''
          (getAll_queries (involving ''u'') 20 0 @ [Equal ''respondent_id'' ''u''])
        :: exn + dispute paginated)
   \<and> isl (failing_on ''respondent_id'' ''timeout''
          [OrderDesc ''created_at'', Limit 20, Offset 0, Equal ''respondent_id'' ''u'']
        :: exn + dispute paginated)
   \<and> isl (failing_on ''recipient_id'' ''timeout''
          [Equal ''recipient_id'' ''u'', OrderDesc ''created_at'', Limit 20, Offset 0]
        :: exn + payment paginated)"
  by (simp add: failing_on_def getAll_queries_def push_equal_def involving_def)

text \<open>
  Claim C8, amended: if either source query of a fan-out merge is rejected, the
  operation returns the failure envelope and no documents; its \<^verbatim>\<open>error\<close> is the message
  of a rejected source query, or the operation's fixed text when that message is empty.
  Nothing in it says which source query failed.
\<close>

theorem fanout_fails_as_a_whole:
  "(truthy_str (flt_userId filters)
    \<and> (isl (disputeList (getAll_queries filters limit offset
                @ [Equal ''complainant_id'' (the (flt_userId filters))]))
       \<or> isl (disputeList (getAll_queries filters limit offset
                @ [Equal ''respondent_id'' (the (flt_userId filters))])))
    \<longrightarrow> (\<exists>e. DisputeService_getAll disputeList race filters limit offset
                 = Failure (api_error e ''Failed to fetch disputes'')
            \<and> (disputeList (getAll_queries filters limit offset
                   @ [Equal ''complainant_id'' (the (flt_userId filters))]) = Inl e
               \<or> disputeList (getAll_queries filters limit offset
                   @ [Equal ''respondent_id'' (the (flt_userId filters))]) = Inl e)))
   \<and> (isl (disputeList [OrderDesc ''created_at'', Limit limit, Offset offset,
                           Equal ''complainant_id'' userId])
       \<or> isl (disputeList [OrderDesc ''created_at'', Limit limit, Offset offset,
                             Equal ''respondent_id'' userId])
    \<longrightarrow> (\<exists>e. DisputeService_getUserDisputes disputeList race userId AllRoles limit offset
                 = Failure (api_error e ''Failed to fetch user disputes'')
            \<and> (disputeList [OrderDesc ''created_at'', Limit limit, Offset offset,
                              Equal ''complainant_id'' userId] = Inl e
               \<or> disputeList [OrderDesc ''created_at'', Limit limit, Offset offset,
                                Equal ''respondent_id'' userId] = Inl e)))
   \<and> (isl (paymentList [Equal ''payer_id'' userId, OrderDesc ''created_at'',
                           Limit limit, Offset offset])
       \<or> isl (paymentList [Equal ''recipient_id'' userId, OrderDesc ''created_at'',
                             Limit limit, Offset offset])
    \<longrightarrow> (\<exists>e. PaymentService_getUserPayments paymentList race userId AllPayments limit offset
                 = Failure (api_error e ''Failed to fetch user payments'')
            \<and> (paymentList [Equal ''payer_id'' userId, OrderDesc ''created_at'',
                              Limit limit, Offset offset] = Inl e
               \<or> paymentList [Equal ''recipient_id'' userId, OrderDesc ''created_at'',
                                Limit limit, Offset offset] = Inl e)))"
proof (intro conjI impI)
  let ?a = "disputeList (getAll_queries filters limit offset
                @ [Equal ''complainant_id'' (the (flt_userId filters))])"
  let ?b = "disputeList (getAll_queries filters limit offset
                @ [Equal ''respondent_id'' (the (flt_userId filters))])"
  assume h: "truthy_str (flt_userId filters) \<and> (isl ?a \<or> isl ?b)"
  then obtain e where e: "promise_all2 race ?a ?b = Inl e" "?a = Inl e \<or> ?b = Inl e"
    using promise_all2_fails [of ?a ?b race] by blast
  from h e(1) have "DisputeService_getAll disputeList race filters limit offset
                 = Failure (api_error e ''Failed to fetch disputes'')"
    by (simp add: DisputeService_getAll_def getAll_response_def Let_def)
  with e(2) show "\<exists>e. DisputeService_getAll disputeList race filters limit offset
                 = Failure (api_error e ''Failed to fetch disputes'') \<and> (?a = Inl e \<or> ?b = Inl e)"
    by blast
next
  let ?a = "disputeList [OrderDesc ''created_at'', Limit limit, Offset offset,
                           Equal ''complainant_id'' userId]"
  let ?b = "disputeList [OrderDesc ''created_at'', Limit limit, Offset offset,
                           Equal ''respondent_id'' userId]"
  assume h: "isl ?a \<or> isl ?b"
  then obtain e where e: "promise_all2 race ?a ?b = Inl e" "?a = Inl e \<or> ?b = Inl e"
    using promise_all2_fails [of ?a ?b race] by blast
  from e(1) have "DisputeService_getUserDisputes disputeList race userId AllRoles limit offset
                 = Failure (api_error e ''Failed to fetch user disputes'')"
    by (simp add: DisputeService_getUserDisputes_def getUserDisputes_response_def Let_def)
  with e(2) show "\<exists>e. DisputeService_getUserDisputes disputeList race userId AllRoles limit offset
                 = Failure (api_error e ''Failed to fetch user disputes'')
                 \<and> (?a = Inl e \<or> ?b = Inl e)"
    by blast
next
  let ?a = "paymentList [Equal ''payer_id'' userId, OrderDesc ''created_at'',
                           Limit limit, Offset offset]"
  let ?b = "paymentList [Equal ''recipient_id'' userId, OrderDesc ''created_at'',
                           Limit limit, Offset offset]"
  assume h: "isl ?a \<or> isl ?b"
  then obtain e where e: "promise_all2 race ?a ?b = Inl e" "?a = Inl e \<or> ?b = Inl e"
    using promise_all2_fails [of ?a ?b race] by blast
  from e(1) have "PaymentService_getUserPayments paymentList race userId AllPayments limit offset
                 = Failure (api_error e ''Failed to fetch user payments'')"
    by (simp add: PaymentService_getUserPayments_def getUserPayments_response_def Let_def)
  with e(2) show "\<exists>e. PaymentService_getUserPayments paymentList race userId AllPayments limit offset
                 = Failure (api_error e ''Failed to fetch user payments'')
                 \<and> (?a = Inl e \<or> ?b = Inl e)"
    by blast
qed


theorem fanout_fails_as_a_whole_witness:
  "DisputeService_getAll (failing_on ''respondent_id'' ''timeout'') True (involving ''u'') 20 0
     = Failure ''timeout''
   \<and> DisputeService_getUserDisputes (failing_on ''respondent_id'' ''timeout'') True ''u''
        AllRoles 20 0 = Failure ''timeout''
   \<and> PaymentService_getUserPayments (failing_on ''recipient_id'' ''timeout'') True ''u''
        AllPayments 20 0 = Failure ''timeout''"
  using fanout_fails_as_a_whole [of "involving ''u''" "failing_on ''respondent_id'' ''timeout''"
      20 0 True "''u''" "failing_on ''recipient_id'' ''timeout''"]
    failing_sources involving_user
  by (auto simp add: failing_on_def getAll_queries_def push_equal_def involving_def api_error_def)


section \<open>Aggregated statistics\<close>

text \<open>Evaluating the binary64 operations on numerals.\<close>

lemma bits_numeral:
  "bits 0 = 0" "bits 1 = 1"
  "bits (numeral (Num.Bit0 n)) = 1 + bits (numeral n)"
  "bits (numeral (Num.Bit1 n)) = 1 + bits (numeral n)"
  by (simp_all add: bits.simps [of 0] bits.simps [of 1] bits.simps [of "numeral (Num.Bit0 n)"]
      bits.simps [of "numeral (Num.Bit1 n)"])

lemma floor_rat_numeral:
  "\<lfloor>numeral a / numeral b :: rat\<rfloor> = numeral a div numeral b"
  "\<lfloor>- (numeral a / numeral b) :: rat\<rfloor> = - numeral a div numeral b"
  "\<lceil>numeral a / numeral b :: rat\<rceil> = - (- numeral a div numeral b)"
  apply (metis floor_divide_of_int_eq of_int_numeral)
  apply (metis divide_minus_left floor_divide_of_int_eq of_int_neg_numeral of_int_numeral)
  apply (metis ceiling_def divide_minus_left floor_divide_of_int_eq of_int_neg_numeral of_int_numeral)
  done

lemmas eval64 = round64_def ilog2_def pow2_def round_half_even_def Let_def bits_numeral
  floor_rat_numeral

lemmas eval_stats = js_sum_def js_count_def js_number_def rated_def payment_between_def math_round_def
  round_half_away_def eval64

text \<open>The averages, as the reducers compute them.\<close>

lemma math_round_half_away: "0 \<le> x \<Longrightarrow> math_round x = round_half_away x"
  by (simp add: math_round_def round_half_away_def)

lemma rating_total:
  "foldl (\<lambda>sum review. js_add sum (js_number (rev_rating review))) (Num 0) rs
   = js_sum (map rev_rating rs)"
  by (simp add: js_sum_def foldl_map)

lemma user_average:
  "averageRating (user_rating_stats rs) =
     (if rs = [] then Num 0
      else js_div (js_round (js_mul (js_div (js_sum (map rev_rating rs)) (js_count (length rs)))
                                    (Num 10)))
                  (Num 10))"
  by (simp add: user_rating_stats_def Let_def rating_total)

lemma platform_average:
  "plat_averageRating (platform_review_stats rs) =
     (if rs = [] then Num 0
      else js_div (js_round (js_mul (js_div (js_sum (map rev_rating rs)) (js_count (length rs)))
                                    (Num 10)))
                  (Num 10))"
  by (simp add: platform_review_stats_def Let_def rating_total)

lemma payment_reducer_totals:
  "totalTransactions (payment_reducer acc p) = totalTransactions acc + 1
   \<and> totalAmount (payment_reducer acc p) = js_add (totalAmount acc) (js_number (pay_amount p))"
  by (simp add: payment_reducer_def Let_def)

lemma payment_fold:
  "totalTransactions (foldl payment_reducer acc ps) = totalTransactions acc + length ps
   \<and> totalAmount (foldl payment_reducer acc ps)
       = foldl (\<lambda>sum x. js_add sum (js_number x)) (totalAmount acc) (map pay_amount ps)"
  by (induction ps arbitrary: acc) (simp_all add: payment_reducer_totals)

lemma payment_average:
  "averageTransactionValue (payment_stats_of ps) =
     (if ps = [] then Num 0
      else js_div (js_sum (map pay_amount ps)) (js_count (length ps)))"
  by (simp add: payment_stats_of_def Let_def payment_fold payment_stats_init_def js_sum_def)

text \<open>
  Two computations in which the binary rounding shows. Ratings of 1.2 and 1.9 average to
  1.5: their sum is the number just below 3.1, and the exact average 1.55 would have
  rounded to 1.6. Amounts of 0.2, 0.1 and 7 average to the number written
  2.433333333333333.
\<close>

lemma binary64_examples:
  "averageRating (user_rating_stats [rated (12 / 10), rated (19 / 10)]) = Num (3 / 2)"
  "averageTransactionValue
     (payment_stats_of [payment_between ''p1'' ''a'' ''b'' (2 / 10) 1,
                        payment_between ''p2'' ''a'' ''b'' (1 / 10) 2,
                        payment_between ''p3'' ''a'' ''b'' 7 3])
   = round64 (2433333333333333 / 1000000000000000)"
  by (simp_all add: user_average payment_average eval_stats)

subsection \<open>Claim C4: domain averages\<close>

text \<open>
  Claim C4 says that every domain average is the sum over the count, 0 for no documents,
  rounded after the division: ratings to 1 decimal place, currency to 2, a half going
  away from zero. \<^verbatim>\<open>PaymentService.getStats\<close> does not round its average at all: three
  payments of 10, 10 and 5 average to the number nearest to 25/3, not to 8.33. And
  \<^verbatim>\<open>Math.round\<close> takes a half up, not away from zero: a single rating of -0.25 averages
  to -0.2, where a half going away from zero would give -0.3.
\<close>

theorem average_transaction_value_unrounded:
  "averageTransactionValue
     (payment_stats_of [payment_between ''p1'' ''a'' ''b'' 10 1, payment_between ''p2'' ''a'' ''b'' 10 2,
                        payment_between ''p3'' ''a'' ''b'' 5 3]) = round64 (25 / 3)
   \<and> round64 (25 / 3) \<noteq> round64 (833 / 100)
   \<and> averageRating (user_rating_stats [rated (- 1 / 4)]) = round64 (- 2 / 10)
   \<and> round_half_away (- 1 / 4 * 10) = - 3
   \<and> round64 (- 2 / 10) \<noteq> round64 (- 3 / 10)"
  by (simp add: payment_average user_average eval_stats)

text \<open>
  Claim C4, amended: the user and the platform average rating are
  \<^verbatim>\<open>Math.round((sum / count) * 10) / 10\<close>, where the sum adds the ratings from the left
  and every operation is the one on JavaScript numbers: the rounding is applied to the
  quotient, not to the sum, and takes a half up, which is a half going away from zero
  when the product is not negative. The average transaction value is \<^verbatim>\<open>sum / count\<close>
  on JavaScript numbers, not rounded to decimal places. Each is 0 when there is no
  document.
\<close>

theorem domain_averages:
  "averageRating (user_rating_stats rs) =
     (if rs = [] then Num 0
      else js_div (js_round (js_mul (js_div (js_sum (map rev_rating rs)) (js_count (length rs)))
                                    (Num 10)))
                  (Num 10))
   \<and> plat_averageRating (platform_review_stats rs) =
     (if rs = [] then Num 0
      else js_div (js_round (js_mul (js_div (js_sum (map rev_rating rs)) (js_count (length rs)))
                                    (Num 10)))
                  (Num 10))
   \<and> averageTransactionValue (payment_stats_of ps) =
     (if ps = [] then Num 0 else js_div (js_sum (map pay_amount ps)) (js_count (length ps)))
   \<and> (rs \<noteq> []
      \<and> js_mul (js_div (js_sum (map rev_rating rs)) (js_count (length rs))) (Num 10) = Num y
      \<and> 0 \<le> y
    \<longrightarrow> averageRating (user_rating_stats rs) = js_div (Num (of_int (round_half_away y))) (Num 10)
        \<and> plat_averageRating (platform_review_stats rs)
            = js_div (Num (of_int (round_half_away y))) (Num 10))"
  using user_average [of rs] platform_average [of rs] payment_average [of ps]
    math_round_half_away [of y]
  by auto


lemma example_averages:
  "js_div (js_round (js_mul (js_div (js_sum (map rev_rating [rated 3, rated 4, rated 5]))
                                    (js_count (length [rated 3, rated 4, rated 5]))) (Num 10)))
          (Num 10) = Num 4"
  "js_div (js_round (js_mul (js_div (js_sum (map rev_rating [rated 4, rated 4, rated 5]))
                                    (js_count (length [rated 4, rated 4, rated 5]))) (Num 10)))
          (Num 10) = round64 (43 / 10)"
  "js_div (js_sum (map pay_amount [payment_between ''p1'' ''a'' ''b'' 10 1,
                                   payment_between ''p2'' ''a'' ''b'' 5 2]))
          (js_count (length [payment_between ''p1'' ''a'' ''b'' 10 1,
                             payment_between ''p2'' ''a'' ''b'' 5 2])) = Num (15 / 2)"
  "js_mul (js_div (js_sum (map rev_rating [rated 4, rated 4, rated 5]))
                  (js_count (length [rated 4, rated 4, rated 5]))) (Num 10)
   = Num (3049312247698773 / 70368744177664)"
  "(0 :: rat) \<le> (3049312247698773 / 70368744177664)"
  "js_div (Num (of_int (round_half_away (3049312247698773 / 70368744177664)))) (Num 10) = round64 (43 / 10)"
  by (simp_all add: eval_stats)

theorem domain_averages_witness:
  "averageRating (user_rating_stats [rated 3, rated 4, rated 5]) = Num 4
   \<and> plat_averageRating (platform_review_stats [rated 4, rated 4, rated 5]) = round64 (43 / 10)
   \<and> averageRating (user_rating_stats []) = Num 0
   \<and> averageTransactionValue (payment_stats_of []) = Num 0
   \<and> averageTransactionValue
       (payment_stats_of [payment_between ''p1'' ''a'' ''b'' 10 1,
                          payment_between ''p2'' ''a'' ''b'' 5 2]) = Num (15 / 2)
   \<and> js_mul (js_div (js_sum (map rev_rating [rated 4, rated 4, rated 5]))
                    (js_count (length [rated 4, rated 4, rated 5]))) (Num 10)
       = Num (3049312247698773 / 70368744177664)
   \<and> (0 :: rat) \<le> (3049312247698773 / 70368744177664)
   \<and> averageRating (user_rating_stats [rated 4, rated 4, rated 5])
       = js_div (Num (of_int (round_half_away (3049312247698773 / 70368744177664)))) (Num 10)"
proof -
  note a = domain_averages [of "[rated 3, rated 4, rated 5]" "[]" 0]
  note b = domain_averages [of "[rated 4, rated 4, rated 5]"
      "[payment_between ''p1'' ''a'' ''b'' 10 1, payment_between ''p2'' ''a'' ''b'' 5 2]" "(3049312247698773 / 70368744177664)"]
  note c = domain_averages [of "[]" "[]" 0]
  have "averageRating (user_rating_stats [rated 3, rated 4, rated 5]) = Num 4"
    using a example_averages(1) by (simp only: list.simps if_False)
  moreover have "plat_averageRating (platform_review_stats [rated 4, rated 4, rated 5])
                 = round64 (43 / 10)"
    using b example_averages(2) by (simp only: list.simps if_False)
  moreover have "averageTransactionValue
       (payment_stats_of [payment_between ''p1'' ''a'' ''b'' 10 1,
                          payment_between ''p2'' ''a'' ''b'' 5 2]) = Num (15 / 2)"
    using b example_averages(3) by (simp only: list.simps if_False)
  moreover have "averageRating (user_rating_stats []) = Num 0"
    using c by simp
  moreover have "averageTransactionValue (payment_stats_of []) = Num 0"
    using c by simp
  moreover have "averageRating (user_rating_stats [rated 4, rated 4, rated 5])
       = js_div (Num (of_int (round_half_away (3049312247698773 / 70368744177664)))) (Num 10)"
    using b example_averages(4,5) by blast
  ultimately show ?thesis
    using example_averages(4,5) by blast
qed

subsection \<open>Claim C5: average resolution time\<close>

text \<open>
  What the two reducers accumulate: \<^verbatim>\<open>getStats\<close> takes a dispute into the resolution
  time when its status is the string \<^verbatim>\<open>'resolved'\<close>, \<^verbatim>\<open>getAdminWorkload\<close> when its status
  is one of the two \<^verbatim>\<open>resolved_in_favor_of_...\<close> values; both ask for \<^verbatim>\<open>resolved_at\<close>.
\<close>

lemma math_round_zero: "math_round 0 = 0"
proof -
  have "\<lfloor>1 / 2 :: rat\<rfloor> = 0" by (rule floor_unique) simp_all
  then show ?thesis by (simp add: math_round_def)
qed

lemma count_status_time:
  "acc_totalResolutionTime (count_status acc d) = acc_totalResolutionTime acc
   \<and> acc_resolvedCount (count_status acc d) = acc_resolvedCount acc"
  by (simp add: count_status_def)

lemma dispute_reducer_time:
  "acc_totalResolutionTime (dispute_reducer acc d) =
     acc_totalResolutionTime acc + (if counted_by_getStats d then hours_taken d else 0)
   \<and> acc_resolvedCount (dispute_reducer acc d) =
     acc_resolvedCount acc + (if counted_by_getStats d then 1 else 0)"
  by (simp add: dispute_reducer_def count_resolution_def count_status_time Let_def
      counted_by_getStats_def hours_taken_def split: option.splits)

lemma dispute_fold_time:
  "acc_totalResolutionTime (foldl dispute_reducer acc ds) =
     acc_totalResolutionTime acc + sum_list (map hours_taken (filter counted_by_getStats ds))
   \<and> acc_resolvedCount (foldl dispute_reducer acc ds) =
     acc_resolvedCount acc + length (filter counted_by_getStats ds)"
  by (induction ds arbitrary: acc) (simp_all add: dispute_reducer_time)

lemma getStats_average:
  "averageResolutionTime (dispute_stats_of ds) =
     (if filter counted_by_getStats ds = [] then 0
      else of_int (math_round (sum_list (map hours_taken (filter counted_by_getStats ds))
                               / of_nat (length (filter counted_by_getStats ds)) * 100)) / 100)"
  by (simp add: dispute_stats_of_def Let_def dispute_fold_time dispute_acc_init_def math_round_zero)

lemma workload_reducer_time:
  "acc_workloadResolutionTime (workload_reducer acc d) =
     acc_workloadResolutionTime acc + (if resolved_with_time d then hours_taken d else 0)
   \<and> acc_resolved (workload_reducer acc d) =
     acc_resolved acc + (if resolved_with_time d then 1 else 0)"
  by (simp add: workload_reducer_def Let_def resolved_with_time_def hours_taken_def
      split: option.splits)

lemma workload_fold_time:
  "acc_workloadResolutionTime (foldl workload_reducer acc ds) =
     acc_workloadResolutionTime acc + sum_list (map hours_taken (filter resolved_with_time ds))
   \<and> acc_resolved (foldl workload_reducer acc ds) =
     acc_resolved acc + length (filter resolved_with_time ds)"
  by (induction ds arbitrary: acc) (simp_all add: workload_reducer_time)

lemma workload_average:
  "workloadAverageResolutionTime (admin_workload_of ds) =
     (if filter resolved_with_time ds = [] then 0
      else of_int (math_round (sum_list (map hours_taken (filter resolved_with_time ds))
                               / of_nat (length (filter resolved_with_time ds)) * 100)) / 100)"
  by (simp add: admin_workload_of_def Let_def workload_fold_time math_round_zero)

lemma getStats_average_zero:
  "list_all (\<lambda>d. dsp_status d \<noteq> ''resolved'') ds \<Longrightarrow>
   averageResolutionTime (dispute_stats_of ds) = 0"
proof -
  assume "list_all (\<lambda>d. dsp_status d \<noteq> ''resolved'') ds"
  then have "filter counted_by_getStats ds = []"
    by (induction ds) (simp_all add: counted_by_getStats_def)
  then show ?thesis by (simp add: getStats_average)
qed

text \<open>
  Claim C5 says that \<^verbatim>\<open>averageResolutionTime\<close>, in \<^verbatim>\<open>getStats\<close> and in
  \<^verbatim>\<open>getAdminWorkload\<close>, is the mean over the resolved disputes carrying \<^verbatim>\<open>resolved_at\<close>
  of the hours between \<^verbatim>\<open>created_at\<close> and \<^verbatim>\<open>resolved_at\<close>. \<^verbatim>\<open>getAdminWorkload\<close> computes
  that (\<open>workload_average\<close>). \<^verbatim>\<open>getStats\<close> counts a dispute as resolved by the two
  \<^verbatim>\<open>resolved_in_favor_of_...\<close> statuses but admits it to the resolution time only under
  the status \<^verbatim>\<open>'resolved'\<close>, which no dispute has: for one dispute resolved after two
  hours it reports one resolved dispute and an average of 0, where the workload of the
  same dispute reports 2.
\<close>

theorem getStats_ignores_resolved_disputes:
  "resolvedDisputes (dispute_stats_of [resolved_dispute]) = 1
   \<and> averageResolutionTime (dispute_stats_of [resolved_dispute]) = 0
   \<and> resolved (admin_workload_of [resolved_dispute]) = 1
   \<and> workloadAverageResolutionTime (admin_workload_of [resolved_dispute]) = 2"
  by code_simp


section \<open>Review mutations\<close>

text \<open>What the backend operations leave unchanged, and what a rejected profile write does.\<close>

lemma called_simps:
  "reviews (called c w) = reviews w" "profiles (called c w) = profiles w"
  "console (called c w) = console w" "faults (called c w) = faults w"
  "calls (called c w) = calls w @ [c]"
  by (simp_all add: called_def)

lemma profile_write_error_cong:
  "faults w' = faults w \<Longrightarrow> profiles w' = profiles w \<Longrightarrow>
   profile_write_error w' u = profile_write_error w u"
  by (cases "profiles w u") (simp_all add: profile_write_error_def)

lemma getUserRatingStats_ok:
  "faults w (ListDocuments REVIEWS) = None \<Longrightarrow>
   \<exists>stats. ReviewService_getUserRatingStats w u = (Success stats, called (ListDocuments REVIEWS) w)"
  by (simp add: ReviewService_getUserRatingStats_def db_listReviews_def store_list_def Let_def)

lemma db_updateProfile_rejected:
  "profile_write_error w u = Some e \<Longrightarrow>
   db_updateProfile w u a n now = (Inl e, called (UpdateDocument PROFILES) w)"
  by (simp add: db_updateProfile_def Let_def)


lemma updateUserRating_rejected:
  assumes "faults w (ListDocuments REVIEWS) = None" and "profile_write_error w u = Some e"
  shows "updateUserRating w u now =
     (called (UpdateDocument PROFILES) (called (ListDocuments REVIEWS) w))
       \<lparr>console := console w @ [(''Failed to update user rating:'', e)]\<rparr>"
proof -
  from assms(1) obtain stats where
    s: "ReviewService_getUserRatingStats w u = (Success stats, called (ListDocuments REVIEWS) w)"
    using getUserRatingStats_ok by blast
  have "profile_write_error (called (ListDocuments REVIEWS) w) u = Some e"
    using assms(2) profile_write_error_cong [of "called (ListDocuments REVIEWS) w" w u]
    by (simp add: called_simps)
  then have "db_updateProfile (called (ListDocuments REVIEWS) w) u (averageRating stats)
               (totalReviews stats) now
             = (Inl e, called (UpdateDocument PROFILES) (called (ListDocuments REVIEWS) w))"
    by (rule db_updateProfile_rejected)
  with s show ?thesis
    by (simp add: updateUserRating_def called_simps)
qed

lemma db_createReview_ok:
  assumes "db_createReview w r = (Inr r', w1)"
  shows "r' = r \<and> w1 = (called (CreateDocument REVIEWS) w)\<lparr>reviews := reviews w @ [r]\<rparr>"
proof (cases "faults w (CreateDocument REVIEWS)")
  case None
  with assms show ?thesis
    by (cases "rev_id r \<in> set (map rev_id (reviews w))")
       (auto simp add: db_createReview_def Let_def)
next
  case (Some e)
  with assms show ?thesis by (simp add: db_createReview_def Let_def)
qed


lemma getById_ok:
  assumes "ReviewService_getById w reviewId = (Success current, w1)"
  shows "w1 = called (GetDocument REVIEWS) w
         \<and> find (\<lambda>r. rev_id r = reviewId) (reviews w) = Some current"
proof (cases "faults w (GetDocument REVIEWS)")
  case None
  with assms show ?thesis
    by (cases "find (\<lambda>r. rev_id r = reviewId) (reviews w)")
       (auto simp add: ReviewService_getById_def db_getReview_def Let_def)
next
  case (Some e)
  with assms show ?thesis by (simp add: ReviewService_getById_def db_getReview_def Let_def)
qed

lemma db_updateReview_ok:
  assumes "db_updateReview w reviewId updateData now = (Inr r, w1)"
  shows "faults w1 = faults w \<and> profiles w1 = profiles w \<and> console w1 = console w
         \<and> calls w1 = calls w @ [UpdateDocument REVIEWS]"
proof (cases "faults w (UpdateDocument REVIEWS)")
  case None
  with assms show ?thesis
    by (cases "find (\<lambda>r. rev_id r = reviewId) (reviews w)")
       (auto simp add: db_updateReview_def Let_def called_simps)
next
  case (Some e)
  with assms show ?thesis by (simp add: db_updateReview_def Let_def)
qed

lemma db_deleteReview_ok:
  assumes "db_deleteReview w reviewId = (Inr u, w1)"
  shows "faults w1 = faults w \<and> profiles w1 = profiles w \<and> console w1 = console w
         \<and> calls w1 = calls w @ [DeleteDocument REVIEWS]"
proof (cases "faults w (DeleteDocument REVIEWS)")
  case None
  with assms show ?thesis
    by (cases "find (\<lambda>r. rev_id r = reviewId) (reviews w)")
       (auto simp add: db_deleteReview_def Let_def called_simps)
next
  case (Some e)
  with assms show ?thesis by (simp add: db_deleteReview_def Let_def)
qed


lemma calls_during_append: "calls w' = calls w @ cs \<Longrightarrow> calls_during w w' = cs"
  by (simp add: calls_during_def)

lemma recompute_swallowed:
  assumes f: "faults w2 = faults w" "profiles w2 = profiles w" "console w2 = console w"
      "calls w2 = calls w @ cs"
    and l: "faults w (ListDocuments REVIEWS) = None"
    and e: "profile_write_error w u = Some e"
  shows "console (updateUserRating w2 u now) = console w @ [(''Failed to update user rating:'', e)]
     \<and> profiles (updateUserRating w2 u now) = profiles w
     \<and> calls_during w (updateUserRating w2 u now)
         = cs @ [ListDocuments REVIEWS, UpdateDocument PROFILES]"
proof -
  have "profile_write_error w2 u = Some e"
    using e profile_write_error_cong [OF f(1,2), of u] by simp
  moreover have "faults w2 (ListDocuments REVIEWS) = None"
    using l f(1) by simp
  ultimately have u: "updateUserRating w2 u now =
     (called (UpdateDocument PROFILES) (called (ListDocuments REVIEWS) w2))
       \<lparr>console := console w2 @ [(''Failed to update user rating:'', e)]\<rparr>"
    by (rule updateUserRating_rejected [rotated])
  have c: "console (updateUserRating w2 u now)
           = console w @ [(''Failed to update user rating:'', e)]"
    unfolding u by (simp add: f(3))
  have p: "profiles (updateUserRating w2 u now) = profiles w"
    unfolding u by (simp add: called_simps f(2))
  have "calls (updateUserRating w2 u now)
        = calls w @ (cs @ [ListDocuments REVIEWS, UpdateDocument PROFILES])"
    unfolding u by (simp add: called_simps f(4))
  then have "calls_during w (updateUserRating w2 u now)
             = cs @ [ListDocuments REVIEWS, UpdateDocument PROFILES]"
    by (rule calls_during_append)
  with c p show ?thesis by blast
qed

lemma create_swallows:
  assumes "db_createReview w (new_review reviewData newId now) = (Inr review, w1)"
    and "faults w (ListDocuments REVIEWS) = None"
    and "profile_write_error w (crr_revieweeId reviewData) = Some e"
  shows "\<exists>w'. ReviewService_create w reviewData newId now = (Success review, w')
        \<and> console w' = console w @ [(''Failed to update user rating:'', e)]
        \<and> profiles w' = profiles w
        \<and> calls_during w w'
            = [CreateDocument REVIEWS, ListDocuments REVIEWS, UpdateDocument PROFILES]"
proof -
  from db_createReview_ok [OF assms(1)]
  have w1: "w1 = (called (CreateDocument REVIEWS) w)
                   \<lparr>reviews := reviews w @ [new_review reviewData newId now]\<rparr>"
    by simp
  have f: "faults w1 = faults w" "profiles w1 = profiles w" "console w1 = console w"
    "calls w1 = calls w @ [CreateDocument REVIEWS]"
    unfolding w1 by (simp_all add: called_simps)
  have "ReviewService_create w reviewData newId now
        = (Success review, updateUserRating w1 (crr_revieweeId reviewData) now)"
    by (simp add: ReviewService_create_def assms(1))
  with recompute_swallowed [OF f assms(2,3), of now] show ?thesis by simp
qed

lemma update_swallows:
  assumes "ReviewService_getById w reviewId = (Success current, w1)"
    and "db_updateReview w1 reviewId updateData now = (Inr updated, w2)"
    and "rating_changed updateData current"
    and "faults w (ListDocuments REVIEWS) = None"
    and "profile_write_error w (rev_reviewee_id current) = Some e"
  shows "\<exists>w'. ReviewService_update w reviewId updateData now = (Success updated, w')
        \<and> console w' = console w @ [(''Failed to update user rating:'', e)]
        \<and> profiles w' = profiles w
        \<and> calls_during w w' = [GetDocument REVIEWS, UpdateDocument REVIEWS,
                                ListDocuments REVIEWS, UpdateDocument PROFILES]"
proof -
  from getById_ok [OF assms(1)] have w1: "w1 = called (GetDocument REVIEWS) w" by simp
  from db_updateReview_ok [OF assms(2)]
  have f: "faults w2 = faults w" "profiles w2 = profiles w" "console w2 = console w"
    "calls w2 = calls w @ [GetDocument REVIEWS, UpdateDocument REVIEWS]"
    unfolding w1 by (simp_all add: called_simps)
  have "ReviewService_update w reviewId updateData now
        = (Success updated, updateUserRating w2 (rev_reviewee_id current) now)"
    by (simp add: ReviewService_update_def assms(1,2,3))
  with recompute_swallowed [OF f assms(4,5), of now] show ?thesis by simp
qed

lemma delete_swallows:
  assumes "ReviewService_getById w reviewId = (Success current, w1)"
    and "db_deleteReview w1 reviewId = (Inr u, w2)"
    and "faults w (ListDocuments REVIEWS) = None"
    and "profile_write_error w (rev_reviewee_id current) = Some e"
  shows "\<exists>w'. ReviewService_delete w reviewId now = (Success (), w')
        \<and> console w' = console w @ [(''Failed to update user rating:'', e)]
        \<and> profiles w' = profiles w
        \<and> calls_during w w' = [GetDocument REVIEWS, DeleteDocument REVIEWS,
                                ListDocuments REVIEWS, UpdateDocument PROFILES]"
proof -
  from getById_ok [OF assms(1)] have w1: "w1 = called (GetDocument REVIEWS) w" by simp
  from db_deleteReview_ok [OF assms(2)]
  have f: "faults w2 = faults w" "profiles w2 = profiles w" "console w2 = console w"
    "calls w2 = calls w @ [GetDocument REVIEWS, DeleteDocument REVIEWS]"
    unfolding w1 by (simp_all add: called_simps)
  have "ReviewService_delete w reviewId now
        = (Success (), updateUserRating w2 (rev_reviewee_id current) now)"
    by (simp add: ReviewService_delete_def assms(1,2))
  with recompute_swallowed [OF f assms(3,4), of now] show ?thesis by simp
qed

text \<open>Once the primary write has succeeded, the result is success, whatever follows.\<close>

lemma primary_decides_create:
  "db_createReview w (new_review reviewData newId now) = (Inr review, w1) \<Longrightarrow>
   fst (ReviewService_create w reviewData newId now) = Success review"
  by (simp add: ReviewService_create_def)

lemma primary_decides_update:
  "ReviewService_getById w reviewId = (Success current, w2) \<Longrightarrow>
   db_updateReview w2 reviewId updateData now = (Inr updated, w3) \<Longrightarrow>
   fst (ReviewService_update w reviewId updateData now) = Success updated"
  by (simp add: ReviewService_update_def)

lemma primary_decides_delete:
  "ReviewService_getById w reviewId = (Success current, w2) \<Longrightarrow>
   db_deleteReview w2 reviewId = (Inr u, w4) \<Longrightarrow>
   fst (ReviewService_delete w reviewId now) = Success ()"
  by (simp add: ReviewService_delete_def)

subsection \<open>Claim C3: a failing profile write does not fail the review mutation\<close>

text \<open>
  Claim C3: whenever the primary review write of \<^verbatim>\<open>ReviewService.create\<close>, \<^verbatim>\<open>update\<close> or
  \<^verbatim>\<open>delete\<close> succeeds and the write of the derived rating to the reviewee's profile is
  rejected, the operation returns \<^verbatim>\<open>{success: true}\<close> with the result of the primary
  write; the rejection is written to the console and nowhere else, and the profile is as
  it was. For \<^verbatim>\<open>update\<close> the profile write is attempted when the rating changed. The
  profile write is reached when the statistics query before it answered; the calls
  listed are the ones the operation issued. The last three parts say that nothing the
  recomputation does reaches the caller: a primary write that succeeded makes the
  result a success.
\<close>

theorem side_effect_failure_is_swallowed:
  "(db_createReview w (new_review reviewData newId now) = (Inr review, w1)
    \<and> faults w (ListDocuments REVIEWS) = None
    \<and> profile_write_error w (crr_revieweeId reviewData) = Some e
    \<longrightarrow> (\<exists>w'. ReviewService_create w reviewData newId now = (Success review, w')
          \<and> console w' = console w @ [(''Failed to update user rating:'', e)]
          \<and> profiles w' = profiles w
          \<and> calls_during w w'
              = [CreateDocument REVIEWS, ListDocuments REVIEWS, UpdateDocument PROFILES]))
   \<and> (ReviewService_getById w reviewId = (Success current, w2)
      \<and> db_updateReview w2 reviewId updateData now = (Inr updated, w3)
      \<and> rating_changed updateData current
      \<and> faults w (ListDocuments REVIEWS) = None
      \<and> profile_write_error w (rev_reviewee_id current) = Some e
    \<longrightarrow> (\<exists>w'. ReviewService_update w reviewId updateData now = (Success updated, w')
          \<and> console w' = console w @ [(''Failed to update user rating:'', e)]
          \<and> profiles w' = profiles w
          \<and> calls_during w w' = [GetDocument REVIEWS, UpdateDocument REVIEWS,
                                  ListDocuments REVIEWS, UpdateDocument PROFILES]))
   \<and> (ReviewService_getById w reviewId = (Success current, w2)
      \<and> db_deleteReview w2 reviewId = (Inr u, w4)
      \<and> faults w (ListDocuments REVIEWS) = None
      \<and> profile_write_error w (rev_reviewee_id current) = Some e
    \<longrightarrow> (\<exists>w'. ReviewService_delete w reviewId now = (Success (), w')
          \<and> console w' = console w @ [(''Failed to update user rating:'', e)]
          \<and> profiles w' = profiles w
          \<and> calls_during w w' = [GetDocument REVIEWS, DeleteDocument REVIEWS,
                                  ListDocuments REVIEWS, UpdateDocument PROFILES]))
   \<and> (db_createReview w (new_review reviewData newId now) = (Inr review, w1)
    \<longrightarrow> fst (ReviewService_create w reviewData newId now) = Success review)
   \<and> (ReviewService_getById w reviewId = (Success current, w2)
      \<and> db_updateReview w2 reviewId updateData now = (Inr updated, w3)
    \<longrightarrow> fst (ReviewService_update w reviewId updateData now) = Success updated)
   \<and> (ReviewService_getById w reviewId = (Success current, w2)
      \<and> db_deleteReview w2 reviewId = (Inr u, w4)
    \<longrightarrow> fst (ReviewService_delete w reviewId now) = Success ())"
  using create_swallows [of w reviewData newId now review w1 e]
    update_swallows [of w reviewId current w2 updateData now updated w3 e]
    delete_swallows [of w reviewId current w2 u w4 e now]
    primary_decides_create [of w reviewData newId now review w1]
    primary_decides_update [of w reviewId current w2 updateData now updated w3]
    primary_decides_delete [of w reviewId current w2 u w4 now]
  by blast

lemma rejecting_world_simps:
  "reviews rejecting_world = [stored_review]"
  "console rejecting_world = []"
  "calls rejecting_world = []"
  "faults rejecting_world (CreateDocument REVIEWS) = None"
  "faults rejecting_world (GetDocument REVIEWS) = None"
  "faults rejecting_world (UpdateDocument REVIEWS) = None"
  "faults rejecting_world (DeleteDocument REVIEWS) = None"
  "faults rejecting_world (ListDocuments REVIEWS) = None"
  "profile_write_error rejecting_world ''u'' = Some ''rejected''"
  by (simp_all add: rejecting_world_def with_fault_def example_world_def REVIEWS_def PROFILES_def
      profile_write_error_def stored_review_def)

lemma pair_snd: "fst p = a \<Longrightarrow> p = (a, snd p)"
  by (cases p) simp

lemma rejecting_create:
  "db_createReview rejecting_world (new_review example_request ''r2'' 50)
   = (Inr (new_review example_request ''r2'' 50),
      snd (db_createReview rejecting_world (new_review example_request ''r2'' 50)))"
  by (rule pair_snd)
     (simp add: db_createReview_def Let_def rejecting_world_simps new_review_def rated_def stored_review_def new_rating_def)

lemma rejecting_getById:
  "ReviewService_getById rejecting_world ''r1''
   = (Success stored_review, called (GetDocument REVIEWS) rejecting_world)"
  by (simp add: ReviewService_getById_def db_getReview_def Let_def rejecting_world_simps rated_def stored_review_def new_rating_def)

lemma rejecting_update:
  "db_updateReview (called (GetDocument REVIEWS) rejecting_world) ''r1''
      (new_rating 5) 50
   = (Inr (apply_update (new_rating 5) 50 stored_review),
      snd (db_updateReview (called (GetDocument REVIEWS) rejecting_world) ''r1''
             (new_rating 5) 50))"
  by (rule pair_snd)
     (simp add: db_updateReview_def Let_def rejecting_world_simps called_simps rated_def stored_review_def new_rating_def)

lemma rejecting_delete:
  "db_deleteReview (called (GetDocument REVIEWS) rejecting_world) ''r1''
   = (Inr (), snd (db_deleteReview (called (GetDocument REVIEWS) rejecting_world) ''r1''))"
  by (rule pair_snd)
     (simp add: db_deleteReview_def Let_def rejecting_world_simps called_simps rated_def stored_review_def new_rating_def)

lemma rejecting_changed:
  "rating_changed (new_rating 5) stored_review
   \<and> rev_reviewee_id stored_review = ''u''
   \<and> crr_revieweeId example_request = ''u''"
  by (simp add: rating_changed_def rated_def stored_review_def new_rating_def example_request_def)

theorem side_effect_failure_is_swallowed_witness:
  "profile_write_error rejecting_world ''u'' = Some ''rejected''
   \<and> (\<exists>w'. ReviewService_create rejecting_world example_request ''r2'' 50
              = (Success (new_review example_request ''r2'' 50), w')
          \<and> console w' = [(''Failed to update user rating:'', ''rejected'')])
   \<and> (\<exists>w'. ReviewService_update rejecting_world ''r1'' (new_rating 5) 50
              = (Success (apply_update (new_rating 5) 50
                            stored_review), w')
          \<and> console w' = [(''Failed to update user rating:'', ''rejected'')])
   \<and> (\<exists>w'. ReviewService_delete rejecting_world ''r1'' 50 = (Success (), w')
          \<and> console w' = [(''Failed to update user rating:'', ''rejected'')])"
  using side_effect_failure_is_swallowed
      [of rejecting_world example_request "''r2''" 50 "new_review example_request ''r2'' 50"
          "snd (db_createReview rejecting_world (new_review example_request ''r2'' 50))"
          "''rejected''" "''r1''" "stored_review"
          "called (GetDocument REVIEWS) rejecting_world"
          "(new_rating 5)"
          "apply_update (new_rating 5) 50 stored_review"
          "snd (db_updateReview (called (GetDocument REVIEWS) rejecting_world) ''r1''
             (new_rating 5) 50)"
          "()" "snd (db_deleteReview (called (GetDocument REVIEWS) rejecting_world) ''r1'')"]
    rejecting_create rejecting_getById rejecting_update rejecting_delete rejecting_changed
    rejecting_world_simps
  by (simp del: fun_upd_apply) blast

section \<open>The guard on the rating recomputation\<close>


lemma getById_world: "snd (ReviewService_getById w reviewId) = called (GetDocument REVIEWS) w"
proof (cases "faults w (GetDocument REVIEWS)")
  case None
  then show ?thesis
    by (cases "find (\<lambda>r. rev_id r = reviewId) (reviews w)")
       (simp_all add: ReviewService_getById_def db_getReview_def Let_def)
next
  case (Some e)
  then show ?thesis by (simp add: ReviewService_getById_def db_getReview_def Let_def)
qed

lemma db_updateReview_frame:
  "faults (snd (db_updateReview w reviewId updateData now)) = faults w
   \<and> profiles (snd (db_updateReview w reviewId updateData now)) = profiles w
   \<and> console (snd (db_updateReview w reviewId updateData now)) = console w
   \<and> calls (snd (db_updateReview w reviewId updateData now)) = calls w @ [UpdateDocument REVIEWS]"
proof (cases "faults w (UpdateDocument REVIEWS)")
  case None
  then show ?thesis
    by (cases "find (\<lambda>r. rev_id r = reviewId) (reviews w)")
       (simp_all add: db_updateReview_def Let_def called_simps)
next
  case (Some e)
  then show ?thesis by (simp add: db_updateReview_def Let_def called_simps)
qed

lemma getUserRatingStats_world:
  "snd (ReviewService_getUserRatingStats w u) = called (ListDocuments REVIEWS) w"
  by (cases "faults w (ListDocuments REVIEWS)")
     (simp_all add: ReviewService_getUserRatingStats_def db_listReviews_def store_list_def Let_def)

lemma db_updateProfile_calls:
  "calls (snd (db_updateProfile w u a n now)) = calls w @ [UpdateDocument PROFILES]"
  by (cases "profile_write_error w u") (simp_all add: db_updateProfile_def Let_def called_simps)

lemma updateUserRating_calls:
  "\<exists>rest. calls (updateUserRating w u now) = calls w @ ListDocuments REVIEWS # rest"
proof (cases "ReviewService_getUserRatingStats w u")
  case (Pair res w1)
  then have w1: "w1 = called (ListDocuments REVIEWS) w"
    using getUserRatingStats_world [of w u] by simp
  show ?thesis
  proof (cases res)
    case (Failure e)
    with Pair w1 show ?thesis by (simp add: updateUserRating_def called_simps)
  next
    case (Success stats)
    obtain r w2 where p: "db_updateProfile w1 u (averageRating stats) (totalReviews stats) now = (r, w2)"
      by (cases "db_updateProfile w1 u (averageRating stats) (totalReviews stats) now")
    then have "calls w2 = calls w1 @ [UpdateDocument PROFILES]"
      using db_updateProfile_calls [of w1 u "averageRating stats" "totalReviews stats" now] by simp
    with Pair Success p w1 show ?thesis
      by (cases r) (simp_all add: updateUserRating_def called_simps)
  qed
qed

lemma update_cases:
  "(\<exists>e. ReviewService_update w reviewId updateData now
          = (Failure e, called (GetDocument REVIEWS) w)
        \<and> fst (ReviewService_getById w reviewId) = Failure e)
   \<or> (\<exists>current e. fst (ReviewService_getById w reviewId) = Success current
        \<and> fst (db_updateReview (called (GetDocument REVIEWS) w) reviewId updateData now) = Inl e
        \<and> ReviewService_update w reviewId updateData now
          = (Failure (api_error e ''Failed to update review''),
             snd (db_updateReview (called (GetDocument REVIEWS) w) reviewId updateData now)))
   \<or> (\<exists>current updated. fst (ReviewService_getById w reviewId) = Success current
        \<and> fst (db_updateReview (called (GetDocument REVIEWS) w) reviewId updateData now) = Inr updated
        \<and> ReviewService_update w reviewId updateData now
          = (Success updated,
             if rating_changed updateData current
             then updateUserRating
                    (snd (db_updateReview (called (GetDocument REVIEWS) w) reviewId updateData now))
                    (rev_reviewee_id current) now
             else snd (db_updateReview (called (GetDocument REVIEWS) w) reviewId updateData now)))"
proof (cases "ReviewService_getById w reviewId")
  case (Pair res w1)
  then have w1: "w1 = called (GetDocument REVIEWS) w"
    using getById_world [of w reviewId] by simp
  show ?thesis
  proof (cases res)
    case (Failure e)
    with Pair w1 show ?thesis by (simp add: ReviewService_update_def)
  next
    case (Success current)
    obtain r w2 where p: "db_updateReview w1 reviewId updateData now = (r, w2)"
      by (cases "db_updateReview w1 reviewId updateData now")
    with Pair Success w1 show ?thesis
      by (cases r) (simp_all add: ReviewService_update_def)
  qed
qed

lemma getById_found:
  "fst (ReviewService_getById w reviewId) = Success current \<Longrightarrow>
   find (\<lambda>r. rev_id r = reviewId) (reviews w) = Some current"
  using getById_ok [of w reviewId current "snd (ReviewService_getById w reviewId)"]
  by (cases "ReviewService_getById w reviewId") simp

lemma not_listed:
  "ListDocuments REVIEWS \<notin> set [GetDocument REVIEWS]"
  "ListDocuments REVIEWS \<notin> set [GetDocument REVIEWS, UpdateDocument REVIEWS]"
  by simp_all

subsection \<open>Claim C10: when an update recomputes the profile rating\<close>

text \<open>
  Claim C10 says that \<^verbatim>\<open>ReviewService.update\<close> recomputes the reviewee's rating if and
  only if \<^verbatim>\<open>updateData.rating\<close> is truthy and differs from the stored rating, and leaves
  the profile alone otherwise. When the backend rejects the primary write the method
  leaves through its \<^verbatim>\<open>catch\<close> block before the guard: the stored rating is 3, the update
  asks for 5, and the only calls issued are the read and the rejected write of the review.
\<close>

theorem rating_change_without_recomputation:
  "find (\<lambda>r. rev_id r = ''r1'') (reviews (with_fault (UpdateDocument REVIEWS) ''down'' example_world))
     = Some stored_review
   \<and> rating_changed (new_rating 5) stored_review
   \<and> fst (ReviewService_update (with_fault (UpdateDocument REVIEWS) ''down'' example_world)
            ''r1'' (new_rating 5) 50) = Failure ''down''
   \<and> calls_during (with_fault (UpdateDocument REVIEWS) ''down'' example_world)
        (snd (ReviewService_update (with_fault (UpdateDocument REVIEWS) ''down'' example_world)
               ''r1'' (new_rating 5) 50))
      = [GetDocument REVIEWS, UpdateDocument REVIEWS]"
  by code_simp

text \<open>
  Claim C10, amended: an update that recomputes the rating (its first step is the
  statistics query on the reviews collection) was given a truthy rating different from
  the stored one; when the review was fetched and the primary write succeeded, the
  recomputation runs if and only if the rating is truthy and differs from the stored
  one; and an update that does not recompute leaves every profile document, so also
  \<^verbatim>\<open>average_rating\<close> and \<^verbatim>\<open>total_reviews\<close> of the reviewee, unchanged. That covers a
  rating that is omitted, equal to the stored one, or 0.
\<close>

theorem rating_recomputation_guard:
  "(ListDocuments REVIEWS
      \<in> set (calls_during w (snd (ReviewService_update w reviewId updateData now)))
    \<longrightarrow> (\<exists>current. find (\<lambda>r. rev_id r = reviewId) (reviews w) = Some current
                  \<and> rating_changed updateData current))
   \<and> (ReviewService_getById w reviewId = (Success stored, w1)
      \<and> db_updateReview w1 reviewId updateData now = (Inr updated, w2)
    \<longrightarrow> (ListDocuments REVIEWS
            \<in> set (calls_during w (snd (ReviewService_update w reviewId updateData now)))
          \<longleftrightarrow> rating_changed updateData stored))
   \<and> (ListDocuments REVIEWS
        \<notin> set (calls_during w (snd (ReviewService_update w reviewId updateData now)))
    \<longrightarrow> profiles (snd (ReviewService_update w reviewId updateData now)) = profiles w)"
proof -
  let ?U = "ReviewService_update w reviewId updateData now"
  let ?g = "called (GetDocument REVIEWS) w"
  let ?d = "db_updateReview ?g reviewId updateData now"
  have g: "snd (ReviewService_getById w reviewId) = ?g" by (rule getById_world)
  have d: "profiles (snd ?d) = profiles w"
    "calls (snd ?d) = calls w @ [GetDocument REVIEWS, UpdateDocument REVIEWS]"
    using db_updateReview_frame [of ?g reviewId updateData now] by (simp_all add: called_simps)
  have hyp: "ReviewService_getById w reviewId = (Success stored, w1)
      \<and> db_updateReview w1 reviewId updateData now = (Inr updated, w2)
      \<Longrightarrow> fst (ReviewService_getById w reviewId) = Success stored \<and> fst ?d = Inr updated"
    using g by auto
  from update_cases [of w reviewId updateData now] consider
    (missing) e where "?U = (Failure e, ?g)" "fst (ReviewService_getById w reviewId) = Failure e"
  | (rejected) current e where "fst (ReviewService_getById w reviewId) = Success current"
      "fst ?d = Inl e" "?U = (Failure (api_error e ''Failed to update review''), snd ?d)"
  | (written) current updated' where "fst (ReviewService_getById w reviewId) = Success current"
      "fst ?d = Inr updated'"
      "?U = (Success updated',
             if rating_changed updateData current
             then updateUserRating (snd ?d) (rev_reviewee_id current) now else snd ?d)"
    by blast
  then show ?thesis
  proof cases
    case missing
    have "calls_during w (snd ?U) = [GetDocument REVIEWS]"
      using missing(1) by (simp add: calls_during_def called_simps)
    moreover have "profiles (snd ?U) = profiles w"
      using missing(1) by (simp add: called_simps)
    ultimately show ?thesis
      using missing(2) hyp not_listed by auto
  next
    case rejected
    have "calls_during w (snd ?U) = [GetDocument REVIEWS, UpdateDocument REVIEWS]"
      using rejected(3) d(2) by (simp add: calls_during_def)
    moreover have "profiles (snd ?U) = profiles w"
      using rejected(3) d(1) by simp
    ultimately show ?thesis
      using rejected(2) hyp not_listed by auto
  next
    case written
    have found: "find (\<lambda>r. rev_id r = reviewId) (reviews w) = Some current"
      using written(1) by (rule getById_found)
    show ?thesis
    proof (cases "rating_changed updateData current")
      case True
      obtain rest where
        "calls (updateUserRating (snd ?d) (rev_reviewee_id current) now)
         = calls (snd ?d) @ ListDocuments REVIEWS # rest"
        using updateUserRating_calls by blast
      then have "calls_during w (snd ?U)
                 = [GetDocument REVIEWS, UpdateDocument REVIEWS] @ ListDocuments REVIEWS # rest"
        using written(3) True d(2) by (simp add: calls_during_def)
      then have "ListDocuments REVIEWS \<in> set (calls_during w (snd ?U))"
        by simp
      then show ?thesis
        using found True written(1) hyp by auto
    next
      case False
      have "calls_during w (snd ?U) = [GetDocument REVIEWS, UpdateDocument REVIEWS]"
        using written(3) False d(2) by (simp add: calls_during_def)
      moreover have "profiles (snd ?U) = profiles w"
        using written(3) False d(1) by simp
      ultimately show ?thesis
        using False written(1) hyp not_listed by auto
    qed
  qed
qed

lemma example_getById:
  "ReviewService_getById example_world ''r1''
   = (Success stored_review, called (GetDocument REVIEWS) example_world)"
  by (simp add: ReviewService_getById_def db_getReview_def Let_def example_world_def rated_def
      stored_review_def)

lemma example_update:
  "db_updateReview (called (GetDocument REVIEWS) example_world) ''r1'' (new_rating x) 50
   = (Inr (apply_update (new_rating x) 50 stored_review),
      snd (db_updateReview (called (GetDocument REVIEWS) example_world) ''r1'' (new_rating x) 50))"
  by (rule pair_snd)
     (simp add: db_updateReview_def Let_def called_simps example_world_def rated_def
        stored_review_def)

lemma example_changed:
  "rating_changed (new_rating 5) stored_review
   \<and> \<not> rating_changed (new_rating 3) stored_review
   \<and> \<not> rating_changed (new_rating 0) stored_review
   \<and> \<not> rating_changed \<lparr>upd_rating = None, upd_comment = Some ''fine''\<rparr> stored_review"
  by (simp add: rating_changed_def new_rating_def stored_review_def rated_def)

theorem rating_recomputation_guard_witness:
  "ListDocuments REVIEWS
     \<in> set (calls_during example_world
              (snd (ReviewService_update example_world ''r1'' (new_rating 5) 50)))
   \<and> ListDocuments REVIEWS
     \<notin> set (calls_during example_world
              (snd (ReviewService_update example_world ''r1'' (new_rating 3) 50)))
   \<and> profiles (snd (ReviewService_update example_world ''r1'' (new_rating 3) 50))
     = profiles example_world
   \<and> ListDocuments REVIEWS
     \<notin> set (calls_during example_world
              (snd (ReviewService_update example_world ''r1'' (new_rating 0) 50)))
   \<and> profiles (snd (ReviewService_update example_world ''r1'' (new_rating 0) 50))
     = profiles example_world"
  using rating_recomputation_guard
      [of example_world "''r1''" "new_rating 5" 50 stored_review
          "called (GetDocument REVIEWS) example_world"
          "apply_update (new_rating 5) 50 stored_review"
          "snd (db_updateReview (called (GetDocument REVIEWS) example_world) ''r1'' (new_rating 5) 50)"]
    rating_recomputation_guard
      [of example_world "''r1''" "new_rating 3" 50 stored_review
          "called (GetDocument REVIEWS) example_world"
          "apply_update (new_rating 3) 50 stored_review"
          "snd (db_updateReview (called (GetDocument REVIEWS) example_world) ''r1'' (new_rating 3) 50)"]
    rating_recomputation_guard
      [of example_world "''r1''" "new_rating 0" 50 stored_review
          "called (GetDocument REVIEWS) example_world"
          "apply_update (new_rating 0) 50 stored_review"
          "snd (db_updateReview (called (GetDocument REVIEWS) example_world) ''r1'' (new_rating 0) 50)"]
    example_getById example_update [of 5] example_update [of 3] example_update [of 0]
    example_changed
  by blast

section \<open>Initial states of created documents\<close>

lemma createDocument_ok:
  assumes "createDocument db collection newId payload = (Inr document, db1)"
  shows "document = payload(''$id'' \<mapsto> JStr newId) \<and> docs db1 (collection, newId) = Some document"
proof (cases "rejects db collection")
  case None
  with assms show ?thesis
    by (cases "docs db (collection, newId)") (auto simp add: createDocument_def Let_def)
next
  case (Some e)
  with assms show ?thesis by (simp add: createDocument_def)
qed

lemma dispute_fields_status:
  "dispute_fields disputeData now ''status'' = Some (JStr ''open'')
   \<and> dispute_fields disputeData now ''priority''
       = Some (if js_truthy (js_get disputeData ''priority'') then js_get disputeData ''priority''
               else JStr ''medium'')"
  by (simp add: dispute_fields_def js_or_def)

lemma payment_fields_status:
  "payment_fields paymentData now ''status'' = Some (JStr ''pending'')
   \<and> payment_fields paymentData now ''escrow_status'' = Some (JStr ''held'')"
  by (simp add: payment_fields_def)

lemma application_fields_status:
  "application_fields applicationData now ''status'' = Some (JStr ''pending'')"
  by (simp add: application_fields_def)

lemma job_fields_status:
  "job_fields jobData now ''status'' = Some (JStr ''open'')
   \<and> job_fields jobData now ''isFeatured'' = Some (JBool False)"
  by (simp add: job_fields_def map_add_def)

lemma created_from:
  assumes "(case createDocument db collection newId payload of
              (Inl e, db1) \<Rightarrow> (Failure (api_error e fallback), db1)
            | (Inr doc, db1) \<Rightarrow> (Success doc, db1)) = (Success document, db')"
  shows "document = payload(''$id'' \<mapsto> JStr newId) \<and> docs db' (collection, newId) = Some document"
proof (cases "createDocument db collection newId payload")
  case (Pair r db1)
  with assms show ?thesis
    using createDocument_ok [of db collection newId payload document db1]
    by (cases r) auto
qed

subsection \<open>Claim C9: the status a created document starts with\<close>

text \<open>
  Claim C9: whatever the request holds, also a status of its own, a dispute is created
  with status \<^verbatim>\<open>'open'\<close> and the request's priority, or \<^verbatim>\<open>'medium'\<close> when that is absent
  or falsy; a payment with status \<^verbatim>\<open>'pending'\<close> and escrow status \<^verbatim>\<open>'held'\<close>; an
  application with status \<^verbatim>\<open>'pending'\<close>; a job with status \<^verbatim>\<open>'open'\<close> and
  \<^verbatim>\<open>isFeatured\<close> false. The document returned is the one the store holds under the new id.
\<close>

theorem created_documents_start_in_initial_state:
  "(DisputeService_create db disputeData newId now = (Success dispute, db1)
    \<longrightarrow> docs db1 (DISPUTES, newId) = Some dispute
        \<and> dispute ''status'' = Some (JStr ''open'')
        \<and> dispute ''priority''
            = Some (if js_truthy (js_get disputeData ''priority'')
                    then js_get disputeData ''priority'' else JStr ''medium''))
   \<and> (PaymentService_create db paymentData newId now = (Success payment, db2)
    \<longrightarrow> docs db2 (PAYMENTS, newId) = Some payment
        \<and> payment ''status'' = Some (JStr ''pending'')
        \<and> payment ''escrow_status'' = Some (JStr ''held''))
   \<and> (ApplicationService_create db applicationData newId now = (Success application, db3)
    \<longrightarrow> docs db3 (APPLICATIONS, newId) = Some application
        \<and> application ''status'' = Some (JStr ''pending''))
   \<and> (JobService_createJob db jobData newId now = (Success job, db4)
    \<longrightarrow> docs db4 (JOBS, newId) = Some job
        \<and> job ''status'' = Some (JStr ''open'')
        \<and> job ''isFeatured'' = Some (JBool False))"
proof (intro conjI impI)
  assume a: "DisputeService_create db disputeData newId now = (Success dispute, db1)"
  from created_from [OF a [unfolded DisputeService_create_def]]
  have d: "dispute = (dispute_fields disputeData now)(''$id'' \<mapsto> JStr newId)"
    and s: "docs db1 (DISPUTES, newId) = Some dispute" by simp_all
  show "docs db1 (DISPUTES, newId) = Some dispute" by (rule s)
  show "dispute ''status'' = Some (JStr ''open'')"
    unfolding d using dispute_fields_status [of disputeData now] by simp
  show "dispute ''priority''
            = Some (if js_truthy (js_get disputeData ''priority'')
                    then js_get disputeData ''priority'' else JStr ''medium'')"
    unfolding d using dispute_fields_status [of disputeData now] by simp
next
  assume a: "PaymentService_create db paymentData newId now = (Success payment, db2)"
  from created_from [OF a [unfolded PaymentService_create_def]]
  have d: "payment = (payment_fields paymentData now)(''$id'' \<mapsto> JStr newId)"
    and s: "docs db2 (PAYMENTS, newId) = Some payment" by simp_all
  show "docs db2 (PAYMENTS, newId) = Some payment" by (rule s)
  show "payment ''status'' = Some (JStr ''pending'')"
    unfolding d using payment_fields_status [of paymentData now] by simp
  show "payment ''escrow_status'' = Some (JStr ''held'')"
    unfolding d using payment_fields_status [of paymentData now] by simp
next
  assume a: "ApplicationService_create db applicationData newId now = (Success application, db3)"
  from created_from [OF a [unfolded ApplicationService_create_def]]
  have d: "application = (application_fields applicationData now)(''$id'' \<mapsto> JStr newId)"
    and s: "docs db3 (APPLICATIONS, newId) = Some application" by simp_all
  show "docs db3 (APPLICATIONS, newId) = Some application" by (rule s)
  show "application ''status'' = Some (JStr ''pending'')"
    unfolding d using application_fields_status [of applicationData now] by simp
next
  assume a: "JobService_createJob db jobData newId now = (Success job, db4)"
  from created_from [OF a [unfolded JobService_createJob_def]]
  have d: "job = (job_fields jobData now)(''$id'' \<mapsto> JStr newId)"
    and s: "docs db4 (JOBS, newId) = Some job" by simp_all
  show "docs db4 (JOBS, newId) = Some job" by (rule s)
  show "job ''status'' = Some (JStr ''open'')"
    unfolding d using job_fields_status [of jobData now] by simp
  show "job ''isFeatured'' = Some (JBool False)"
    unfolding d using job_fields_status [of jobData now] by simp
qed


lemma example_creates:
  "DisputeService_create empty_database status_request ''n1'' ''2025-01-01''
   = (Success ((dispute_fields status_request ''2025-01-01'')(''$id'' \<mapsto> JStr ''n1'')),
      snd (DisputeService_create empty_database status_request ''n1'' ''2025-01-01''))"
  "PaymentService_create empty_database status_request ''n1'' ''2025-01-01''
   = (Success ((payment_fields status_request ''2025-01-01'')(''$id'' \<mapsto> JStr ''n1'')),
      snd (PaymentService_create empty_database status_request ''n1'' ''2025-01-01''))"
  "ApplicationService_create empty_database status_request ''n1'' ''2025-01-01''
   = (Success ((application_fields status_request ''2025-01-01'')(''$id'' \<mapsto> JStr ''n1'')),
      snd (ApplicationService_create empty_database status_request ''n1'' ''2025-01-01''))"
  "JobService_createJob empty_database status_request ''n1'' ''2025-01-01''
   = (Success ((job_fields status_request ''2025-01-01'')(''$id'' \<mapsto> JStr ''n1'')),
      snd (JobService_createJob empty_database status_request ''n1'' ''2025-01-01''))"
  by (rule pair_snd,
      simp add: DisputeService_create_def PaymentService_create_def ApplicationService_create_def
        JobService_createJob_def createDocument_def empty_database_def Let_def)+

lemma status_request_asks:
  "js_get status_request ''status'' = JStr ''resolved''
   \<and> js_get status_request ''priority'' = JStr ''high''
   \<and> js_get status_request ''isFeatured'' = JBool True"
  by (simp add: status_request_def js_get_def)

theorem created_documents_start_in_initial_state_witness:
  "js_get status_request ''status'' = JStr ''resolved''
   \<and> js_get status_request ''isFeatured'' = JBool True
   \<and> (\<exists>doc db1. DisputeService_create empty_database status_request ''n1'' ''2025-01-01''
                   = (Success doc, db1)
          \<and> doc ''status'' = Some (JStr ''open'') \<and> doc ''priority'' = Some (JStr ''high''))
   \<and> (\<exists>doc db1. PaymentService_create empty_database status_request ''n1'' ''2025-01-01''
                   = (Success doc, db1)
          \<and> doc ''status'' = Some (JStr ''pending'') \<and> doc ''escrow_status'' = Some (JStr ''held''))
   \<and> (\<exists>doc db1. ApplicationService_create empty_database status_request ''n1'' ''2025-01-01''
                   = (Success doc, db1)
          \<and> doc ''status'' = Some (JStr ''pending''))
   \<and> (\<exists>doc db1. JobService_createJob empty_database status_request ''n1'' ''2025-01-01''
                   = (Success doc, db1)
          \<and> doc ''status'' = Some (JStr ''open'') \<and> doc ''isFeatured'' = Some (JBool False))"
proof -
  note t = created_documents_start_in_initial_state
      [of empty_database status_request "''n1''" "''2025-01-01''"
          "(dispute_fields status_request ''2025-01-01'')(''$id'' \<mapsto> JStr ''n1'')"
          "snd (DisputeService_create empty_database status_request ''n1'' ''2025-01-01'')"
          status_request
          "(payment_fields status_request ''2025-01-01'')(''$id'' \<mapsto> JStr ''n1'')"
          "snd (PaymentService_create empty_database status_request ''n1'' ''2025-01-01'')"
          status_request
          "(application_fields status_request ''2025-01-01'')(''$id'' \<mapsto> JStr ''n1'')"
          "snd (ApplicationService_create empty_database status_request ''n1'' ''2025-01-01'')"
          status_request
          "(job_fields status_request ''2025-01-01'')(''$id'' \<mapsto> JStr ''n1'')"
          "snd (JobService_createJob empty_database status_request ''n1'' ''2025-01-01'')"]
  have "js_truthy (js_get status_request ''priority'')"
    using status_request_asks by simp
  with t example_creates status_request_asks show ?thesis
    by (simp del: fun_upd_apply) blast
qed


end
